theory Spec2Isabelle
  imports Complex_Main "HOL-Library.AList"
begin

section \<open>JavaScript values\<close>

text \<open>
  The handlers of \<^verbatim>\<open>backend/src/server.ts\<close> receive payloads typed \<^verbatim>\<open>any\<close> and test them
  at run time (\<^verbatim>\<open>typeof\<close>, truthiness, \<^verbatim>\<open>Array.isArray\<close>). A payload is therefore a value of
  the datatype \<open>jsval\<close>. Numbers are IEEE doubles; only comparisons are made on them, which
  are exact, so a finite number is its real value and the three non-finite doubles are
  constructors of their own. Strings are lists of code units below 256.
\<close>

datatype jsnum = Finite real | PosInfinity | NegInfinity | NaN

datatype jsval =
    JUndefined
  | JNull
  | JBool bool
  | JNum jsnum
  | JStr string
  | JArr "jsval list"
  | JObj "(string \<times> jsval) list"

text \<open>Truthiness: \<^verbatim>\<open>undefined\<close>, \<^verbatim>\<open>null\<close>, \<^verbatim>\<open>false\<close>, \<^verbatim>\<open>0\<close>, \<^verbatim>\<open>NaN\<close> and \<^verbatim>\<open>""\<close> are falsy.\<close>

fun truthy :: "jsval \<Rightarrow> bool" where
  "truthy JUndefined = False"
| "truthy JNull = False"
| "truthy (JBool b) = b"
| "truthy (JNum (Finite r)) = (r \<noteq> 0)"
| "truthy (JNum NaN) = False"
| "truthy (JNum n) = True"
| "truthy (JStr s) = (s \<noteq> [])"
| "truthy (JArr xs) = True"
| "truthy (JObj fs) = True"

text \<open>\<^verbatim>\<open>typeof v === 'object'\<close> holds of \<^verbatim>\<open>null\<close>, of arrays and of objects.\<close>

fun typeof_object :: "jsval \<Rightarrow> bool" where
  "typeof_object JNull = True"
| "typeof_object (JArr xs) = True"
| "typeof_object (JObj fs) = True"
| "typeof_object v = False"

fun typeof_string :: "jsval \<Rightarrow> bool" where
  "typeof_string (JStr s) = True"
| "typeof_string v = False"

fun typeof_number :: "jsval \<Rightarrow> bool" where
  "typeof_number (JNum n) = True"
| "typeof_number v = False"

fun isNaN :: "jsval \<Rightarrow> bool" where
  "isNaN (JNum NaN) = True"
| "isNaN v = False"

fun isFinite :: "jsval \<Rightarrow> bool" where
  "isFinite (JNum (Finite r)) = True"
| "isFinite v = False"

text \<open>
  \<^verbatim>\<open>Math.abs(v) <= b\<close> for a number \<open>v\<close> and a finite bound \<open>b\<close>: false of \<^verbatim>\<open>NaN\<close> and of
  both infinities. It is only evaluated after \<^verbatim>\<open>typeof v === 'number'\<close> has held.
\<close>

fun abs_le :: "jsval \<Rightarrow> real \<Rightarrow> bool" where
  "abs_le (JNum (Finite r)) b = (\<bar>r\<bar> \<le> b)"
| "abs_le v b = False"

text \<open>
  Property read \<^verbatim>\<open>v.k\<close> on a value that is neither \<^verbatim>\<open>undefined\<close> nor \<^verbatim>\<open>null\<close> (on those
  the read throws, which every caller below handles before reading). None of the
  property names the server reads exists on an array, a string, a number or a boolean.
\<close>

fun get_prop :: "jsval \<Rightarrow> string \<Rightarrow> jsval" where
  "get_prop (JObj fs) k = (case map_of fs k of None \<Rightarrow> JUndefined | Some v \<Rightarrow> v)"
| "get_prop v k = JUndefined"

fun nullish :: "jsval \<Rightarrow> bool" where
  "nullish JUndefined = True"
| "nullish JNull = True"
| "nullish v = False"

text \<open>\<^verbatim>\<open>a || b\<close>\<close>

definition js_or :: "jsval \<Rightarrow> jsval \<Rightarrow> jsval" where
  "js_or a b = (if truthy a then a else b)"

section \<open>Configuration constants\<close>

definition MAX_MESSAGE_LENGTH :: nat where "MAX_MESSAGE_LENGTH = 1000"
definition MAX_USERNAME_LENGTH :: nat where "MAX_USERNAME_LENGTH = 50"
definition MAX_ROOM_NAME_LENGTH :: nat where "MAX_ROOM_NAME_LENGTH = 100"
definition MAX_CONNECTIONS_PER_IP :: nat where "MAX_CONNECTIONS_PER_IP = 10"
definition POSITION_UPDATE_INTERVAL :: int where "POSITION_UPDATE_INTERVAL = 100"

text \<open>
  \<^verbatim>\<open>Math.PI * 2\<close> is the double \<open>884279719003555 / 2 ^ 47\<close> (doubling the double nearest to
  \<open>\<pi>\<close> is exact).
\<close>

definition MATH_PI_2 :: real where
  "MATH_PI_2 = 884279719003555 / 140737488355328"

section \<open>Input validation and sanitization helpers\<close>

text \<open>
  \<^verbatim>\<open>String.prototype.trim\<close> removes white space and line terminators from both ends. Among
  the code units below 256 these are TAB, LF, VT, FF, CR, SPACE and NBSP.
\<close>

definition is_space :: "char \<Rightarrow> bool" where
  "is_space c \<longleftrightarrow> c \<in> {CHR 0x09, CHR 0x0A, CHR 0x0B, CHR 0x0C, CHR 0x0D, CHR 0x20, CHR 0xA0}"

definition trim :: "string \<Rightarrow> string" where
  "trim s = rev (dropWhile is_space (rev (dropWhile is_space s)))"

text \<open>\<^verbatim>\<open>input.trim().replace(/[<>]/g, '')\<close>\<close>

definition sanitizeString :: "string \<Rightarrow> string" where
  "sanitizeString input = filter (\<lambda>c. c \<noteq> CHR ''<'' \<and> c \<noteq> CHR ''>'') (trim input)"

definition validatePosition :: "jsval \<Rightarrow> bool" where
  "validatePosition position =
     (if \<not> truthy position \<or> \<not> typeof_object position then False
      else
        let x = get_prop position ''x''; y = get_prop position ''y'';
            z = get_prop position ''z''; rotation = get_prop position ''rotation''
        in typeof_number x \<and> \<not> isNaN x \<and> isFinite x \<and>
           typeof_number y \<and> \<not> isNaN y \<and> isFinite y \<and>
           typeof_number z \<and> \<not> isNaN z \<and> isFinite z \<and>
           typeof_number rotation \<and> \<not> isNaN rotation \<and> isFinite rotation \<and>
           abs_le x 1000 \<and> abs_le y 1000 \<and> abs_le z 1000 \<and>
           abs_le rotation MATH_PI_2)"

definition validateMessage :: "jsval \<Rightarrow> bool" where
  "validateMessage message =
     (case message of
        JStr m \<Rightarrow>
          if \<not> truthy message then False
          else let sanitized = sanitizeString m
               in length sanitized > 0 \<and> length sanitized \<le> MAX_MESSAGE_LENGTH
      | _ \<Rightarrow> False)"

definition validateUserData :: "jsval \<Rightarrow> bool" where
  "validateUserData userData =
     (if \<not> truthy userData \<or> \<not> typeof_object userData then False
      else
        let username = get_prop userData ''username'' in
        (case username of
           JStr u \<Rightarrow>
             if \<not> truthy username then False
             else let sanitizedUsername = sanitizeString u
                  in length sanitizedUsername > 0 \<and>
                     length sanitizedUsername \<le> MAX_USERNAME_LENGTH
         | _ \<Rightarrow> False))"

definition validateRoomId :: "jsval \<Rightarrow> bool" where
  "validateRoomId roomId =
     (case roomId of
        JStr r \<Rightarrow>
          if \<not> truthy roomId then False
          else let sanitized = sanitizeString r
               in length sanitized > 0 \<and> length sanitized \<le> MAX_ROOM_NAME_LENGTH
      | _ \<Rightarrow> False)"

section \<open>Server state\<close>

text \<open>
  \<^verbatim>\<open>interface UserData\<close>; the fields carry the prefix \<open>u_\<close>. \<^verbatim>\<open>avatar\<close>, \<^verbatim>\<open>position\<close> and
  \<^verbatim>\<open>room\<close> hold whatever the client sent where the code stores it unchecked.
\<close>

record UserData =
  u_id :: string
  u_username :: string
  u_avatar :: jsval
  u_position :: jsval
  u_room :: jsval
  u_lastActivity :: int
  u_connectionCount :: nat
  u_isActive :: bool

text \<open>
  What one connection's closure holds: \<^verbatim>\<open>socket.handshake.address\<close>, the four fields of
  \<^verbatim>\<open>socket.data\<close> and the variable \<^verbatim>\<open>lastMoveTime\<close>.
\<close>

record socket =
  address :: string
  data_currentRoom :: jsval
  data_username :: jsval
  data_avatar :: jsval
  data_position :: jsval
  lastMoveTime :: int

text \<open>
  A JavaScript \<^verbatim>\<open>Map\<close> is an association list in insertion order (\<open>AList.update\<close> replaces
  the value of a present key in place and appends an absent one, as \<^verbatim>\<open>Map.set\<close> does); a
  \<^verbatim>\<open>Set\<close> of identities is a list in insertion order. \<open>sockets\<close> are the live connections and
  \<open>adapter\<close> is the transport's own room table (room name to the connections that joined it),
  which decides who receives a broadcast.
\<close>

record server =
  connectedUsers :: "(string \<times> UserData) list"
  rooms :: "(string \<times> string list) list"
  ipConnections :: "(string \<times> nat) list"
  sockets :: "(string \<times> socket) list"
  adapter :: "(string \<times> string list) list"

definition initial_server :: server where
  "initial_server = \<lparr>connectedUsers = [], rooms = [], ipConnections = [], sockets = [], adapter = []\<rparr>"

text \<open>\<^verbatim>\<open>Set.add\<close>, and the members of a room (\<^verbatim>\<open>rooms.get(r) || []\<close>).\<close>

definition Set_add :: "string \<Rightarrow> string list \<Rightarrow> string list" where
  "Set_add x xs = (if x \<in> set xs then xs else xs @ [x])"

definition members :: "(string \<times> string list) list \<Rightarrow> string \<Rightarrow> string list" where
  "members m r = (case map_of m r of None \<Rightarrow> [] | Some xs \<Rightarrow> xs)"

text \<open>
  The block that occurs three times in the source (joinRoom, cleanupInactiveUsers,
  disconnect):
  \<^verbatim>\<open>const roomUsers = rooms.get(room);
  if (roomUsers) { roomUsers.delete(id); if (roomUsers.size === 0) { rooms.delete(room); } }\<close>
  The same steps are the transport's \<^verbatim>\<open>socket.leave(room)\<close>. Only strings are ever stored
  as keys, so a room of any other type finds no entry.
\<close>

fun room_remove :: "string \<Rightarrow> jsval \<Rightarrow> (string \<times> string list) list \<Rightarrow> (string \<times> string list) list" where
  "room_remove i (JStr r) m =
     (case map_of m r of
        None \<Rightarrow> m
      | Some roomUsers \<Rightarrow>
          let roomUsers' = removeAll i roomUsers
          in if length roomUsers' = 0 then AList.delete r m else AList.update r roomUsers' m)"
| "room_remove i v m = m"

subsection \<open>The transport's rooms\<close>

text \<open>
  Socket.IO's in-memory adapter, as far as the handlers use it. \<^verbatim>\<open>socket.join(r)\<close> adds the
  connection to room \<open>r\<close>; every connection joins the room named by its own identity when it
  connects, and before its \<^verbatim>\<open>disconnect\<close> handler runs it has left all its rooms and is no
  longer among the connections. \<^verbatim>\<open>io.to(r).emit\<close> reaches every connection in room \<open>r\<close>; when
  \<open>r\<close> is an array it names several rooms, whose connections are each reached once, and the
  empty array names no room, in which case the emission goes to every connection.
  \<^verbatim>\<open>socket.to(r).emit\<close> reaches the same connections except those in the room named by the
  sender's identity. \<^verbatim>\<open>socket.emit\<close> reaches the connection's own client only.
\<close>

definition sio_join :: "string \<Rightarrow> string \<Rightarrow> (string \<times> string list) list \<Rightarrow> (string \<times> string list) list" where
  "sio_join sid r ad = AList.update r (Set_add sid (members ad r)) ad"

definition sio_leave :: "string \<Rightarrow> jsval \<Rightarrow> (string \<times> string list) list \<Rightarrow> (string \<times> string list) list" where
  "sio_leave sid r ad = room_remove sid r ad"

definition sio_leave_all :: "string \<Rightarrow> (string \<times> string list) list \<Rightarrow> (string \<times> string list) list" where
  "sio_leave_all sid ad =
     filter (\<lambda>(r, ms). ms \<noteq> []) (map (\<lambda>(r, ms). (r, removeAll sid ms)) ad)"

text \<open>The connections in the room a value names; only strings name rooms that exist.\<close>

fun room_sids :: "jsval \<Rightarrow> (string \<times> string list) list \<Rightarrow> string list" where
  "room_sids (JStr r) ad = members ad r"
| "room_sids v ad = []"

text \<open>
  The receivers of \<^verbatim>\<open>io.to(room).emit\<close>, given the adapter's rooms \<open>ad\<close> and all connections
  \<open>sids\<close> in the order they connected.
\<close>

fun io_to :: "jsval \<Rightarrow> (string \<times> string list) list \<Rightarrow> string list \<Rightarrow> string list" where
  "io_to (JArr rs) ad sids =
     (if rs = [] then sids else fold Set_add (concat (map (\<lambda>v. room_sids v ad) rs)) [])"
| "io_to v ad sids = room_sids v ad"

definition socket_to :: "string \<Rightarrow> jsval \<Rightarrow> (string \<times> string list) list \<Rightarrow> string list \<Rightarrow> string list" where
  "socket_to sid r ad sids = filter (\<lambda>x. x \<notin> set (members ad sid)) (io_to r ad sids)"

subsection \<open>Outbound events\<close>

record ChatMessage =
  m_id :: string
  m_userId :: string
  m_username :: jsval
  m_message :: string
  m_timestamp :: int
  m_type :: string

text \<open>
  The events the server emits. \<open>EvJoinRoom\<close> is the \<^verbatim>\<open>socket.emit('joinRoom', room)\<close> at the
  end of the initializeUser handler: an event sent to the client.
\<close>

datatype event =
    EvError string
  | EvJoinRoom jsval
  | EvUserJoined string jsval jsval jsval string
  | EvRoomUsers "UserData list"
  | EvUserMoved string jsval
  | EvMessageReceived ChatMessage
  | EvAvatarUpdated string jsval
  | EvUserLeft string

text \<open>An emission is the receiving connection and the event.\<close>

type_synonym emission = "string \<times> event"

definition broadcast :: "string list \<Rightarrow> event \<Rightarrow> emission list" where
  "broadcast rs e = map (\<lambda>r. (r, e)) rs"

definition default_position :: jsval where
  "default_position =
     JObj [(''x'', JNum (Finite 0)), (''y'', JNum (Finite 0)), (''z'', JNum (Finite 0)),
           (''rotation'', JNum (Finite 0))]"

definition default_avatar :: jsval where
  "default_avatar =
     JObj [(''id'', JStr ''default''), (''name'', JStr ''Default''), (''model'', JStr ''default''),
           (''color'', JStr ''#3b82f6''), (''accessories'', JArr []),
           (''position'', default_position)]"

section \<open>Event handlers\<close>

text \<open>
  Each handler takes the identity \<open>sid\<close> of the connection it is registered on, its payload,
  the reading \<open>now\<close> of \<^verbatim>\<open>Date.now()\<close> (one reading for the whole handler run) and the
  server state, and returns the new state with the emissions in the order the code makes
  them. Handlers exist only for live connections, so an identity without a connection
  changes nothing.
\<close>

definition updateActivity :: "string \<Rightarrow> int \<Rightarrow> server \<Rightarrow> server" where
  "updateActivity sid now st =
     (case map_of (connectedUsers st) sid of
        None \<Rightarrow> st
      | Some ud \<Rightarrow>
          st\<lparr>connectedUsers := AList.update sid (ud\<lparr>u_lastActivity := now\<rparr>) (connectedUsers st)\<rparr>)"

text \<open>\<^verbatim>\<open>io.on('connection', ...)\<close> up to the registration of the handlers.\<close>

definition connection :: "string \<Rightarrow> string \<Rightarrow> server \<Rightarrow> server" where
  "connection sid clientIP st =
     (if map_of (sockets st) sid \<noteq> None then st
      else
        let currentConnections = (case map_of (ipConnections st) clientIP of None \<Rightarrow> 0 | Some n \<Rightarrow> n)
        in if currentConnections \<ge> MAX_CONNECTIONS_PER_IP then st
           else st\<lparr>ipConnections := AList.update clientIP (currentConnections + 1) (ipConnections st),
                   sockets := AList.update sid
                      \<lparr>address = clientIP, data_currentRoom = JUndefined, data_username = JUndefined,
                       data_avatar = JUndefined, data_position = JUndefined, lastMoveTime = 0\<rparr>
                      (sockets st),
                   adapter := sio_join sid sid (adapter st)\<rparr>)"

text \<open>The membership snapshot sent to a joining connection.\<close>

definition roomUsers_of :: "string \<Rightarrow> string \<Rightarrow> server \<Rightarrow> UserData list" where
  "roomUsers_of sid r st =
     List.map_filter (\<lambda>userId. map_of (connectedUsers st) userId)
       (filter (\<lambda>userId. userId \<noteq> sid) (members (rooms st) r))"

definition joinRoom :: "string \<Rightarrow> jsval \<Rightarrow> int \<Rightarrow> server \<Rightarrow> server \<times> emission list" where
  "joinRoom sid roomId now st0 =
     (case map_of (sockets st0) sid of
        None \<Rightarrow> (st0, [])
      | Some sk \<Rightarrow>
          let st1 = updateActivity sid now st0 in
          if \<not> validateRoomId roomId then (st1, [(sid, EvError ''Invalid room ID'')])
          else
            (case roomId of
               JStr r \<Rightarrow>
                 let sanitizedRoomId = sanitizeString r;
                     st2 = (if truthy (data_currentRoom sk)
                            then st1\<lparr>adapter := sio_leave sid (data_currentRoom sk) (adapter st1),
                                     rooms := room_remove sid (data_currentRoom sk) (rooms st1)\<rparr>
                            else st1);
                     st3 = st2\<lparr>adapter := sio_join sid sanitizedRoomId (adapter st2),
                               sockets := AList.update sid
                                  (sk\<lparr>data_currentRoom := JStr sanitizedRoomId\<rparr>) (sockets st2)\<rparr>;
                     st4 = (if map_of (rooms st3) sanitizedRoomId = None
                            then st3\<lparr>rooms := AList.update sanitizedRoomId [] (rooms st3)\<rparr>
                            else st3);
                     st5 = st4\<lparr>rooms := AList.update sanitizedRoomId
                                  (Set_add sid (members (rooms st4) sanitizedRoomId)) (rooms st4)\<rparr>;
                     st6 = (case map_of (connectedUsers st5) sid of
                              None \<Rightarrow> st5
                            | Some userData \<Rightarrow>
                                st5\<lparr>connectedUsers := AList.update sid
                                      (userData\<lparr>u_room := JStr sanitizedRoomId, u_lastActivity := now\<rparr>)
                                      (connectedUsers st5)\<rparr>);
                     joined = EvUserJoined sid
                                (js_or (data_username sk) (JStr ''Anonymous''))
                                (js_or (data_avatar sk) default_avatar)
                                (js_or (data_position sk) default_position)
                                sanitizedRoomId;
                     roomUsers = roomUsers_of sid sanitizedRoomId st6
                 in (st6, broadcast (socket_to sid (JStr sanitizedRoomId) (adapter st6) (map fst (sockets st6))) joined
                          @ [(sid, EvRoomUsers roomUsers)])
             | _ \<Rightarrow> (st1, [(sid, EvError ''Invalid room ID'')])))"

definition move :: "string \<Rightarrow> jsval \<Rightarrow> int \<Rightarrow> server \<Rightarrow> server \<times> emission list" where
  "move sid pos now st0 =
     (case map_of (sockets st0) sid of
        None \<Rightarrow> (st0, [])
      | Some sk \<Rightarrow>
          let st1 = updateActivity sid now st0 in
          if now - lastMoveTime sk < POSITION_UPDATE_INTERVAL then (st1, [])
          else
            let sk1 = sk\<lparr>lastMoveTime := now\<rparr>;
                st2 = st1\<lparr>sockets := AList.update sid sk1 (sockets st1)\<rparr>
            in if \<not> validatePosition pos then (st2, [(sid, EvError ''Invalid position data'')])
               else if truthy (data_currentRoom sk1) then
                 let sk2 = sk1\<lparr>data_position := pos\<rparr>;
                     st3 = st2\<lparr>sockets := AList.update sid sk2 (sockets st2)\<rparr>;
                     st4 = (case map_of (connectedUsers st3) sid of
                              None \<Rightarrow> st3
                            | Some userData \<Rightarrow>
                                st3\<lparr>connectedUsers := AList.update sid
                                      (userData\<lparr>u_position := pos, u_lastActivity := now\<rparr>)
                                      (connectedUsers st3)\<rparr>)
                 in (st4, broadcast (socket_to sid (data_currentRoom sk2) (adapter st4) (map fst (sockets st4)))
                            (EvUserMoved sid pos))
               else (st2, []))"

text \<open>Decimal digits of a timestamp, for the message id \<^verbatim>\<open>msg_${Date.now()}_${...}\<close>.\<close>

definition digit_char :: "nat \<Rightarrow> char" where
  "digit_char d =
     (if d = 0 then CHR ''0'' else if d = 1 then CHR ''1'' else if d = 2 then CHR ''2''
      else if d = 3 then CHR ''3'' else if d = 4 then CHR ''4'' else if d = 5 then CHR ''5''
      else if d = 6 then CHR ''6'' else if d = 7 then CHR ''7'' else if d = 8 then CHR ''8''
      else CHR ''9'')"

fun show_nat :: "nat \<Rightarrow> string" where
  "show_nat n = (if n < 10 then [digit_char n] else show_nat (n div 10) @ [digit_char (n mod 10)])"

definition show_int :: "int \<Rightarrow> string" where
  "show_int i = (if i < 0 then CHR ''-'' # show_nat (nat (- i)) else show_nat (nat i))"

text \<open>
  \<open>rnd\<close> is \<^verbatim>\<open>Math.random().toString(36).substr(2, 9)\<close>. Reading \<^verbatim>\<open>data.message\<close> of
  \<^verbatim>\<open>undefined\<close> or \<^verbatim>\<open>null\<close> throws inside the \<^verbatim>\<open>try\<close>, which the \<^verbatim>\<open>catch\<close> turns into an
  error event.
\<close>

definition sendMessage :: "string \<Rightarrow> jsval \<Rightarrow> int \<Rightarrow> string \<Rightarrow> server \<Rightarrow> server \<times> emission list" where
  "sendMessage sid data now rnd st0 =
     (case map_of (sockets st0) sid of
        None \<Rightarrow> (st0, [])
      | Some sk \<Rightarrow>
          let st1 = updateActivity sid now st0 in
          if nullish data then (st1, [(sid, EvError ''Failed to send message'')])
          else if \<not> validateMessage (get_prop data ''message'') then
            (st1, [(sid, EvError ''Invalid message'')])
          else if truthy (data_currentRoom sk) then
            (case get_prop data ''message'' of
               JStr m \<Rightarrow>
                 let sanitizedMessage = sanitizeString m;
                     ty = get_prop data ''type'';
                     message = \<lparr>m_id = ''msg_'' @ show_int now @ ''_'' @ rnd,
                                m_userId = sid,
                                m_username = js_or (data_username sk) (JStr ''Anonymous''),
                                m_message = sanitizedMessage,
                                m_timestamp = now,
                                m_type = (if ty = JStr ''system'' then ''system''
                                          else if ty = JStr ''private'' then ''private''
                                          else ''chat'')\<rparr>
                 in (st1, broadcast (io_to (data_currentRoom sk) (adapter st1) (map fst (sockets st1)))
                            (EvMessageReceived message))
             | _ \<Rightarrow> (st1, [(sid, EvError ''Invalid message'')]))
          else (st1, []))"

text \<open>\<^verbatim>\<open>/^#[0-9A-F]{6}$/i.test(s)\<close>\<close>

definition is_hex_digit :: "char \<Rightarrow> bool" where
  "is_hex_digit c \<longleftrightarrow> c \<in> set ''0123456789ABCDEFabcdef''"

definition hex_color :: "string \<Rightarrow> bool" where
  "hex_color s = (case s of [] \<Rightarrow> False | c # cs \<Rightarrow> c = CHR ''#'' \<and> length cs = 6 \<and> list_all is_hex_digit cs)"

text \<open>The object \<^verbatim>\<open>validAvatar\<close> that the updateAvatar handler builds from its payload.\<close>

definition validAvatar_of :: "jsval \<Rightarrow> jsval" where
  "validAvatar_of av =
     JObj [(''id'', case get_prop av ''id'' of JStr s \<Rightarrow> JStr (sanitizeString s) | _ \<Rightarrow> JStr ''default''),
           (''name'', case get_prop av ''name'' of JStr s \<Rightarrow> JStr (sanitizeString s) | _ \<Rightarrow> JStr ''Default''),
           (''model'', case get_prop av ''model'' of JStr s \<Rightarrow> JStr (sanitizeString s) | _ \<Rightarrow> JStr ''default''),
           (''color'', case get_prop av ''color'' of
                         JStr s \<Rightarrow> if hex_color s then JStr s else JStr ''#3b82f6''
                       | _ \<Rightarrow> JStr ''#3b82f6''),
           (''accessories'', case get_prop av ''accessories'' of
                               JArr xs \<Rightarrow> JArr (filter typeof_string xs)
                             | _ \<Rightarrow> JArr []),
           (''position'', if validatePosition (get_prop av ''position'')
                          then get_prop av ''position'' else default_position)]"

definition updateAvatar :: "string \<Rightarrow> jsval \<Rightarrow> int \<Rightarrow> server \<Rightarrow> server \<times> emission list" where
  "updateAvatar sid av now st0 =
     (case map_of (sockets st0) sid of
        None \<Rightarrow> (st0, [])
      | Some sk \<Rightarrow>
          let st1 = updateActivity sid now st0 in
          if \<not> truthy av \<or> \<not> typeof_object av then (st1, [(sid, EvError ''Invalid avatar data'')])
          else
            let validAvatar = validAvatar_of av;
                st2 = st1\<lparr>sockets := AList.update sid (sk\<lparr>data_avatar := validAvatar\<rparr>) (sockets st1)\<rparr>;
                st3 = (case map_of (connectedUsers st2) sid of
                         None \<Rightarrow> st2
                       | Some userData \<Rightarrow>
                           st2\<lparr>connectedUsers := AList.update sid
                                 (userData\<lparr>u_avatar := validAvatar, u_lastActivity := now\<rparr>)
                                 (connectedUsers st2)\<rparr>)
            in if truthy (data_currentRoom sk)
               then (st3, broadcast (socket_to sid (data_currentRoom sk) (adapter st3) (map fst (sockets st3)))
                            (EvAvatarUpdated sid validAvatar))
               else (st3, []))"

definition initializeUser :: "string \<Rightarrow> jsval \<Rightarrow> int \<Rightarrow> server \<Rightarrow> server \<times> emission list" where
  "initializeUser sid userData now st0 =
     (case map_of (sockets st0) sid of
        None \<Rightarrow> (st0, [])
      | Some sk \<Rightarrow>
          let st1 = updateActivity sid now st0 in
          if \<not> validateUserData userData then (st1, [(sid, EvError ''Invalid user data'')])
          else
            (case get_prop userData ''username'' of
               JStr u \<Rightarrow>
                 let sanitizedUsername = sanitizeString u;
                     validAvatar = default_avatar;
                     sk1 = sk\<lparr>data_username := JStr sanitizedUsername,
                              data_avatar := js_or (get_prop userData ''avatar'') validAvatar,
                              data_position := (if validatePosition (get_prop userData ''position'')
                                                then get_prop userData ''position''
                                                else default_position),
                              data_currentRoom := js_or (get_prop userData ''room'') (JStr ''lobby'')\<rparr>;
                     st2 = st1\<lparr>sockets := AList.update sid sk1 (sockets st1)\<rparr>;
                     st3 = st2\<lparr>connectedUsers := AList.update sid
                                  \<lparr>u_id = sid, u_username = sanitizedUsername,
                                   u_avatar = data_avatar sk1, u_position = data_position sk1,
                                   u_room = data_currentRoom sk1, u_lastActivity = now,
                                   u_connectionCount = 1, u_isActive = True\<rparr>
                                  (connectedUsers st2)\<rparr>
                 in (st3, [(sid, EvJoinRoom (data_currentRoom sk1))])
             | _ \<Rightarrow> (st1, [(sid, EvError ''Invalid user data'')])))"

text \<open>
  The disconnect handler. Before it runs, the transport has taken the connection out of
  all its rooms and out of its connections.
\<close>

definition disconnect :: "string \<Rightarrow> server \<Rightarrow> server \<times> emission list" where
  "disconnect sid st0 =
     (case map_of (sockets st0) sid of
        None \<Rightarrow> (st0, [])
      | Some sk \<Rightarrow>
          let st1 = st0\<lparr>adapter := sio_leave_all sid (adapter st0),
                        sockets := AList.delete sid (sockets st0)\<rparr>;
              clientIP = address sk;
              currentConnections = (case map_of (ipConnections st1) clientIP of None \<Rightarrow> 0 | Some n \<Rightarrow> n);
              st2 = (if currentConnections > 0
                     then let ips = AList.update clientIP (currentConnections - 1) (ipConnections st1)
                          in st1\<lparr>ipConnections :=
                                  (if currentConnections - 1 = 0 then AList.delete clientIP ips else ips)\<rparr>
                     else st1);
              st3 = (if truthy (data_currentRoom sk)
                     then st2\<lparr>rooms := room_remove sid (data_currentRoom sk) (rooms st2)\<rparr>
                     else st2);
              out = (if truthy (data_currentRoom sk)
                     then broadcast (socket_to sid (data_currentRoom sk) (adapter st3) (map fst (sockets st3))) (EvUserLeft sid)
                     else []);
              st4 = st3\<lparr>connectedUsers := AList.delete sid (connectedUsers st3)\<rparr>
          in (st4, out))"

subsection \<open>The inactivity sweep\<close>

definition INACTIVITY_TIMEOUT :: int where
  "INACTIVITY_TIMEOUT = 5 * 60 * 1000"

text \<open>
  One turn of the loop of \<^verbatim>\<open>cleanupInactiveUsers\<close>. The loop only ever deletes the entry
  it is visiting, so it visits each entry present at its start exactly once.
\<close>

definition cleanup_entry :: "int \<Rightarrow> string \<times> UserData \<Rightarrow> server \<Rightarrow> server" where
  "cleanup_entry now e st =
     (let userId = fst e; userData = snd e in
      if now - u_lastActivity userData > INACTIVITY_TIMEOUT then
        let st1 = st\<lparr>connectedUsers := AList.delete userId (connectedUsers st)\<rparr>
        in if truthy (u_room userData)
           then st1\<lparr>rooms := room_remove userId (u_room userData) (rooms st1)\<rparr>
           else st1
      else st)"

definition cleanupInactiveUsers :: "int \<Rightarrow> server \<Rightarrow> server" where
  "cleanupInactiveUsers now st = fold (cleanup_entry now) (connectedUsers st) st"

section \<open>The client store\<close>

text \<open>
  The store of \<^verbatim>\<open>stores/metaverseStore.ts\<close>, with the types of its interfaces. The record
  fields carry a prefix where the bare name would clash.
\<close>

record Position =
  pos_x :: real
  pos_y :: real
  pos_z :: real
  pos_rotation :: real

record Avatar =
  av_id :: string
  av_name :: string
  av_model :: string
  av_color :: string
  av_accessories :: "string list"
  av_position :: Position

record User =
  c_id :: string
  c_username :: string
  c_avatar :: Avatar
  c_position :: Position
  c_room :: string

record WorldObject =
  wo_id :: string
  wo_type :: string
  wo_position :: Position
  wo_model :: "string option"
  wo_size :: "real option"
  wo_rotation :: "real option"
  wo_text :: "string option"
  wo_color :: "string option"
  wo_destination :: "string option"
  wo_height :: "real option"

record Environment =
  lighting :: string
  weather :: string
  time_of_day :: real

record WorldState =
  ws_users :: "User list"
  ws_objects :: "WorldObject list"
  ws_environment :: Environment

record MetaverseStore =
  has_socket :: bool
  isConnected :: bool
  isConnecting :: bool
  connectionAttempts :: nat
  lastConnectionAttempt :: int
  currentUser :: "User option"
  isAuthenticated :: bool
  worldState :: WorldState
  messages :: "ChatMessage list"
  isChatOpen :: bool
  isLoading :: bool
  error_text :: "string option"

text \<open>
  \<^verbatim>\<open>socket.on('userLeft', (userId: string) => ...)\<close>: a payload that is not a string is
  ignored; otherwise every user with that id is filtered out of \<^verbatim>\<open>worldState.users\<close>.
\<close>

definition on_userLeft :: "jsval \<Rightarrow> MetaverseStore \<Rightarrow> MetaverseStore" where
  "on_userLeft userId st =
     (case userId of
        JStr uid \<Rightarrow>
          let ws = worldState st;
              updatedUsers = filter (\<lambda>user. c_id user \<noteq> uid) (ws_users ws)
          in st\<lparr>worldState := ws\<lparr>ws_users := updatedUsers\<rparr>\<rparr>
      | _ \<Rightarrow> st)"

section \<open>Runs of the server\<close>

text \<open>
  Everything that can happen to the server: a connection arrives, one of a connection's
  handlers runs, or the timer runs the inactivity sweep.
\<close>

datatype action =
    Connection string string
  | JoinRoom string jsval int
  | Move string jsval int
  | SendMessage string jsval int string
  | UpdateAvatar string jsval int
  | InitializeUser string jsval int
  | Disconnect string
  | CleanupInactiveUsers int

fun step :: "action \<Rightarrow> server \<Rightarrow> server \<times> emission list" where
  "step (Connection sid clientIP) st = (connection sid clientIP st, [])"
| "step (JoinRoom sid roomId now) st = joinRoom sid roomId now st"
| "step (Move sid pos now) st = move sid pos now st"
| "step (SendMessage sid data now rnd) st = sendMessage sid data now rnd st"
| "step (UpdateAvatar sid av now) st = updateAvatar sid av now st"
| "step (InitializeUser sid userData now) st = initializeUser sid userData now st"
| "step (Disconnect sid) st = disconnect sid st"
| "step (CleanupInactiveUsers now) st = (cleanupInactiveUsers now st, [])"

fun run :: "action list \<Rightarrow> server \<Rightarrow> server" where
  "run [] st = st"
| "run (a # as) st = run as (fst (step a st))"

text \<open>A room of the Room Index exists: \<^verbatim>\<open>rooms.has(r)\<close>.\<close>

definition room_exists :: "(string \<times> string list) list \<Rightarrow> string \<Rightarrow> bool" where
  "room_exists m r \<longleftrightarrow> map_of m r \<noteq> None"

text \<open>No entry of the Room Index holds an empty member set.\<close>

definition rooms_ok :: "(string \<times> string list) list \<Rightarrow> bool" where
  "rooms_ok m \<longleftrightarrow> list_all (\<lambda>(r, ms). ms \<noteq> []) m"

text \<open>
  The Registry as every run keeps it: one entry per key, each record filed under its own
  \<^verbatim>\<open>id\<close>.
\<close>

definition registry_ok :: "(string \<times> UserData) list \<Rightarrow> bool" where
  "registry_ok us \<longleftrightarrow> distinct (map fst us) \<and> list_all (\<lambda>(k, ud). u_id ud = k) us"

text \<open>The record, the avatar and the position the Registry holds for an identity.\<close>

definition avatar_of :: "server \<Rightarrow> string \<Rightarrow> jsval" where
  "avatar_of st sid = (case map_of (connectedUsers st) sid of None \<Rightarrow> JUndefined | Some ud \<Rightarrow> u_avatar ud)"

definition position_of :: "server \<Rightarrow> string \<Rightarrow> jsval" where
  "position_of st sid = (case map_of (connectedUsers st) sid of None \<Rightarrow> JUndefined | Some ud \<Rightarrow> u_position ud)"

text \<open>A connection's \<^verbatim>\<open>lastMoveTime\<close>, its current room and its avatar, if it is connected.\<close>

definition lastMoveTime_of :: "server \<Rightarrow> string \<Rightarrow> int option" where
  "lastMoveTime_of st sid = map_option lastMoveTime (map_of (sockets st) sid)"

definition currentRoom_of :: "server \<Rightarrow> string \<Rightarrow> jsval option" where
  "currentRoom_of st sid = map_option data_currentRoom (map_of (sockets st) sid)"

definition data_avatar_of :: "server \<Rightarrow> string \<Rightarrow> jsval option" where
  "data_avatar_of st sid = map_option data_avatar (map_of (sockets st) sid)"

definition data_position_of :: "server \<Rightarrow> string \<Rightarrow> jsval option" where
  "data_position_of st sid = map_option data_position (map_of (sockets st) sid)"

text \<open>The Registry with every \<^verbatim>\<open>lastActivity\<close> blanked: all of it but the activity stamps.\<close>

definition without_activity :: "(string \<times> UserData) list \<Rightarrow> (string \<times> UserData) list" where
  "without_activity us = map (\<lambda>(k, ud). (k, ud\<lparr>u_lastActivity := 0\<rparr>)) us"

text \<open>A connection is live.\<close>

definition connected :: "server \<Rightarrow> string \<Rightarrow> bool" where
  "connected st sid \<longleftrightarrow> map_of (sockets st) sid \<noteq> None"

text \<open>The room the Registry records for an identity.\<close>

definition room_of :: "server \<Rightarrow> string \<Rightarrow> jsval" where
  "room_of st sid = (case map_of (connectedUsers st) sid of None \<Rightarrow> JUndefined | Some ud \<Rightarrow> u_room ud)"

text \<open>Every member set of the Room Index is free of repetitions, as a \<^verbatim>\<open>Set\<close> is.\<close>

definition rooms_distinct :: "(string \<times> string list) list \<Rightarrow> bool" where
  "rooms_distinct m \<longleftrightarrow> list_all (\<lambda>(r, ms). distinct ms) m"

text \<open>The identities in a \<^verbatim>\<open>roomUsers\<close> snapshot; no identities in any other event.\<close>

fun snapshot_ids :: "event \<Rightarrow> string list" where
  "snapshot_ids (EvRoomUsers snap) = map u_id snap"
| "snapshot_ids e = []"

text \<open>The inactivity test of the sweep.\<close>

definition expired :: "int \<Rightarrow> UserData \<Rightarrow> bool" where
  "expired now ud \<longleftrightarrow> now - u_lastActivity ud > INACTIVITY_TIMEOUT"

text \<open>The identities the sweep removes among the entries \<open>es\<close>.\<close>

definition expired_keys :: "int \<Rightarrow> (string \<times> UserData) list \<Rightarrow> string list" where
  "expired_keys now es = map fst (filter (\<lambda>e. expired now (snd e)) es)"

section \<open>Scenarios\<close>

text \<open>
  Two clients on different addresses initialize and join the lobby: Alice at time 1000 and
  Bob at time 3000.
\<close>

definition scenario_lobby :: "action list" where
  "scenario_lobby =
     [Connection ''A'' ''10.0.0.1'',
      InitializeUser ''A'' (JObj [(''username'', JStr ''Alice'')]) 1000,
      JoinRoom ''A'' (JStr ''lobby'') 1000,
      Connection ''B'' ''10.0.0.2'',
      InitializeUser ''B'' (JObj [(''username'', JStr ''Bob'')]) 3000,
      JoinRoom ''B'' (JStr ''lobby'') 3000]"

definition lobby_state :: server where
  "lobby_state = run scenario_lobby initial_server"

text \<open>One client has connected and nothing else has happened.\<close>

definition fresh_state :: server where
  "fresh_state = connection ''A'' ''10.0.0.1'' initial_server"

definition alice :: jsval where
  "alice = JObj [(''username'', JStr ''Alice'')]"

text \<open>An avatar no field of which would pass the checks of updateAvatar unchanged.\<close>

definition red_avatar :: jsval where
  "red_avatar = JObj [(''color'', JStr ''red''), (''name'', JStr ''<b>Eve</b>'')]"

definition alice_red :: jsval where
  "alice_red = JObj [(''username'', JStr ''Alice''), (''avatar'', red_avatar)]"

text \<open>The lobby scenario just before Bob joins.\<close>

definition before_join_state :: server where
  "before_join_state = run (butlast scenario_lobby) initial_server"

text \<open>The lobby scenario, after which Alice sets her avatar's name.\<close>

definition scenario_avatar :: "action list" where
  "scenario_avatar = scenario_lobby @ [UpdateAvatar ''A'' (JObj [(''name'', JStr ''Bob'')]) 4000]"

definition avatar_state :: server where
  "avatar_state = run scenario_avatar initial_server"

text \<open>Bob joins the lobby without initializing; Alice connects and initializes.\<close>

definition scenario_bare :: "action list" where
  "scenario_bare =
     [Connection ''B'' ''10.0.0.2'',
      JoinRoom ''B'' (JStr ''lobby'') 1000,
      Connection ''A'' ''10.0.0.1'',
      InitializeUser ''A'' alice 2000]"

definition bare_state :: server where
  "bare_state = run scenario_bare initial_server"

text \<open>Alice joins the arena, then initializes without naming a room.\<close>

definition scenario_ghost :: "action list" where
  "scenario_ghost =
     [Connection ''A'' ''10.0.0.1'',
      JoinRoom ''A'' (JStr ''arena'') 1000,
      InitializeUser ''A'' alice 2000]"

definition ghost_state :: server where
  "ghost_state = run scenario_ghost initial_server"

text \<open>A chat payload whose body needs sanitizing.\<close>

definition hi :: jsval where
  "hi = JObj [(''message'', JStr '' <hi> '')]"

text \<open>A position inside the bounds and one with \<open>x = 5000\<close>, outside them.\<close>

definition pos_a :: jsval where
  "pos_a = JObj [(''x'', JNum (Finite 1)), (''y'', JNum (Finite 2)), (''z'', JNum (Finite 3)),
                 (''rotation'', JNum (Finite 0))]"

definition pos_far :: jsval where
  "pos_far = JObj [(''x'', JNum (Finite 5000)), (''y'', JNum (Finite 2)), (''z'', JNum (Finite 3)),
                   (''rotation'', JNum (Finite 0))]"

section \<open>Facts about the containers\<close>

lemma set_update_subset: "set (AList.update k v al) \<subseteq> insert (k, v) (set al)"
  by (induction al) auto

lemma set_delete_subset: "set (AList.delete k al) \<subseteq> set al"
  by (auto simp: AList.delete_eq)

lemma Set_add_nonempty: "Set_add x xs \<noteq> []"
  by (auto simp: Set_add_def)

lemma members_update: "members (AList.update r ms m) r' = (if r' = r then ms else members m r')"
  by (simp add: members_def update_conv')

lemma members_delete: "members (AList.delete r m) r' = (if r' = r then [] else members m r')"
  by (simp add: members_def delete_conv')

text \<open>Taking an identity out of a room changes that room's members only.\<close>

lemma members_room_remove:
  "members (room_remove i v m) r' = (if v = JStr r' then removeAll i (members m r') else members m r')"
proof (cases v)
  case (JStr r)
  show ?thesis
  proof (cases "map_of m r")
    case None
    then show ?thesis using JStr by (auto simp: members_def)
  next
    case (Some ms)
    then show ?thesis using JStr
      by (auto simp: Let_def members_update members_delete) (simp_all add: members_def)
  qed
qed simp_all

subsection \<open>The handlers that leave the Room Index alone\<close>

lemma rooms_updateActivity: "rooms (updateActivity sid now st) = rooms st"
  by (simp add: updateActivity_def split: option.splits)

lemma rooms_connection: "rooms (connection sid ip st) = rooms st"
  by (simp add: connection_def Let_def)

lemma rooms_move: "rooms (fst (move sid pos now st)) = rooms st"
  by (simp add: move_def Let_def rooms_updateActivity split: option.splits)

lemma rooms_sendMessage: "rooms (fst (sendMessage sid data now rnd st)) = rooms st"
  by (simp add: sendMessage_def Let_def rooms_updateActivity split: option.splits jsval.splits)

lemma rooms_updateAvatar: "rooms (fst (updateAvatar sid av now st)) = rooms st"
  by (simp add: updateAvatar_def Let_def rooms_updateActivity split: option.splits)

lemma rooms_initializeUser: "rooms (fst (initializeUser sid userData now st)) = rooms st"
  by (simp add: initializeUser_def Let_def rooms_updateActivity split: option.splits jsval.splits)

subsection \<open>No handler leaves an empty room behind\<close>

lemma rooms_ok_update: "rooms_ok m \<Longrightarrow> ms \<noteq> [] \<Longrightarrow> rooms_ok (AList.update r ms m)"
  using set_update_subset[of r ms m] by (auto simp: rooms_ok_def list_all_iff)

lemma rooms_ok_delete: "rooms_ok m \<Longrightarrow> rooms_ok (AList.delete r m)"
  using set_delete_subset[of r m] by (auto simp: rooms_ok_def list_all_iff)

lemma room_remove_ok: "rooms_ok m \<Longrightarrow> rooms_ok (room_remove i r m)"
  by (cases r) (auto simp: Let_def rooms_ok_update rooms_ok_delete split: option.splits)

lemma joinRoom_rooms_ok: "rooms_ok (rooms st) \<Longrightarrow> rooms_ok (rooms (fst (joinRoom sid roomId now st)))"
  by (auto simp: joinRoom_def Let_def rooms_updateActivity rooms_ok_update room_remove_ok Set_add_nonempty
      split: option.splits jsval.splits)

lemma disconnect_rooms_ok: "rooms_ok (rooms st) \<Longrightarrow> rooms_ok (rooms (fst (disconnect sid st)))"
  by (auto simp: disconnect_def Let_def room_remove_ok split: option.splits)

lemma cleanup_entry_rooms_ok: "rooms_ok (rooms st) \<Longrightarrow> rooms_ok (rooms (cleanup_entry now e st))"
  by (auto simp: cleanup_entry_def Let_def room_remove_ok)

lemma fold_cleanup_rooms_ok: "rooms_ok (rooms st) \<Longrightarrow> rooms_ok (rooms (fold (cleanup_entry now) es st))"
  by (induction es arbitrary: st) (simp_all add: cleanup_entry_rooms_ok)

lemma step_rooms_ok: "rooms_ok (rooms st) \<Longrightarrow> rooms_ok (rooms (fst (step a st)))"
  by (cases a)
     (simp_all add: rooms_connection joinRoom_rooms_ok rooms_move rooms_sendMessage
        rooms_updateAvatar rooms_initializeUser disconnect_rooms_ok
        cleanupInactiveUsers_def fold_cleanup_rooms_ok)

lemma run_rooms_ok: "rooms_ok (rooms st) \<Longrightarrow> rooms_ok (rooms (run as st))"
  by (induction as arbitrary: st) (simp_all add: step_rooms_ok)

lemma rooms_ok_iff: "rooms_ok m \<Longrightarrow> room_exists m r \<longleftrightarrow> members m r \<noteq> []"
  by (auto simp: rooms_ok_def room_exists_def members_def list_all_iff
      split: option.splits dest: map_of_SomeD)

subsection \<open>The sweep, entry by entry\<close>

lemma connectedUsers_fold_cleanup:
  "connectedUsers (fold (cleanup_entry now) es st) =
     filter (\<lambda>e. fst e \<notin> set (expired_keys now es)) (connectedUsers st)"
proof (induction es arbitrary: st)
  case Nil
  then show ?case by (simp add: expired_keys_def)
next
  case (Cons e es)
  show ?case
  proof (cases "expired now (snd e)")
    case True
    then have "connectedUsers (cleanup_entry now e st) = filter (\<lambda>e'. fst e' \<noteq> fst e) (connectedUsers st)"
      by (auto simp: cleanup_entry_def Let_def expired_def AList.delete_eq case_prod_beta intro: filter_cong)
    then show ?thesis using True Cons.IH[of "cleanup_entry now e st"]
      by (auto simp: expired_keys_def intro: filter_cong)
  next
    case False
    then have "cleanup_entry now e st = st"
      by (simp add: cleanup_entry_def Let_def expired_def)
    then show ?thesis using False Cons.IH[of st] by (simp add: expired_keys_def)
  qed
qed

lemma rooms_cleanup_entry:
  "rooms (cleanup_entry now e st) =
     (if expired now (snd e) \<and> truthy (u_room (snd e)) then room_remove (fst e) (u_room (snd e)) (rooms st)
      else rooms st)"
  by (simp add: cleanup_entry_def Let_def expired_def)

lemma members_fold_cleanup_mono:
  "j \<notin> set (members (rooms st) r) \<Longrightarrow> j \<notin> set (members (rooms (fold (cleanup_entry now) es st)) r)"
  by (induction es arbitrary: st)
     (simp_all add: rooms_cleanup_entry members_room_remove del: room_remove.simps)

lemma members_fold_cleanup_kept:
  "j \<notin> set (expired_keys now es) \<Longrightarrow>
     j \<in> set (members (rooms (fold (cleanup_entry now) es st)) r) \<longleftrightarrow> j \<in> set (members (rooms st) r)"
proof (induction es arbitrary: st)
  case Nil
  then show ?case by simp
next
  case (Cons e es)
  then have j: "j \<notin> set (expired_keys now es)" and e: "expired now (snd e) \<longrightarrow> j \<noteq> fst e"
    by (auto simp: expired_keys_def)
  have "j \<in> set (members (rooms (cleanup_entry now e st)) r) \<longleftrightarrow> j \<in> set (members (rooms st) r)"
    using e by (auto simp: rooms_cleanup_entry members_room_remove simp del: room_remove.simps)
  then show ?case using Cons.IH[OF j, of "cleanup_entry now e st"] by simp
qed

lemma members_fold_cleanup_removed:
  "e \<in> set es \<Longrightarrow> expired now (snd e) \<Longrightarrow> u_room (snd e) = JStr r \<Longrightarrow> r \<noteq> [] \<Longrightarrow>
     fst e \<notin> set (members (rooms (fold (cleanup_entry now) es st)) r)"
proof (induction es arbitrary: st)
  case Nil
  then show ?case by simp
next
  case (Cons e' es)
  show ?case
  proof (cases "e \<in> set es")
    case True
    then show ?thesis using Cons by simp
  next
    case False
    then have "e' = e" using Cons.prems by simp
    then have "fst e \<notin> set (members (rooms (cleanup_entry now e' st)) r)"
      using Cons.prems by (simp add: rooms_cleanup_entry members_room_remove del: room_remove.simps)
    then show ?thesis by (simp add: members_fold_cleanup_mono)
  qed
qed

lemma filter_distinct_keys:
  "distinct (map fst us) \<Longrightarrow>
     filter (\<lambda>e. fst e \<notin> set (expired_keys now us)) us = filter (\<lambda>e. \<not> expired now (snd e)) us"
  by (rule filter_cong) (auto simp: expired_keys_def dest: eq_key_imp_eq_value)

subsection \<open>Touching a record\<close>

lemma map_of_updateActivity:
  "map_of (connectedUsers (updateActivity sid now st)) k =
     map_option (\<lambda>ud. if k = sid then ud\<lparr>u_lastActivity := now\<rparr> else ud) (map_of (connectedUsers st) k)"
  by (cases "map_of (connectedUsers st) k") (auto simp: updateActivity_def update_conv' split: option.splits)

lemma other_updateActivity:
  "sockets (updateActivity sid now st) = sockets st"
  "adapter (updateActivity sid now st) = adapter st"
  "ipConnections (updateActivity sid now st) = ipConnections st"
  by (simp_all add: updateActivity_def split: option.splits)

lemma position_of_updateActivity: "position_of (updateActivity sid now st) k = position_of st k"
  by (cases "map_of (connectedUsers st) k") (auto simp: position_of_def map_of_updateActivity)

lemma update_same_upto:
  "map_of al k = Some v \<Longrightarrow> f v' = f v \<Longrightarrow>
     map (\<lambda>(k, v). (k, f v)) (AList.update k v' al) = map (\<lambda>(k, v). (k, f v)) al"
  by (induction al) (auto split: if_splits)

lemma without_activity_updateActivity:
  "without_activity (connectedUsers (updateActivity sid now st)) = without_activity (connectedUsers st)"
  by (auto simp: without_activity_def updateActivity_def update_same_upto split: option.splits)

lemma pos_a_valid: "validatePosition pos_a"
  by (simp add: validatePosition_def pos_a_def MATH_PI_2_def)

lemma pos_far_invalid: "\<not> validatePosition pos_far"
  by (simp add: validatePosition_def pos_far_def MATH_PI_2_def)

lemma lobby_sockets_eval:
  "lastMoveTime_of lobby_state ''A'' = Some 0"
  "currentRoom_of lobby_state ''A'' = Some (JStr ''lobby'')"
  by code_simp+

subsection \<open>Facts about joins\<close>

lemma registry_ok_map_of: "registry_ok us \<Longrightarrow> map_of us k = Some ud \<Longrightarrow> u_id ud = k"
  by (auto simp: registry_ok_def list_all_iff dest: map_of_SomeD)

lemma map_u_id_map_filter:
  "(\<And>x ud. f x = Some ud \<Longrightarrow> u_id ud = x) \<Longrightarrow>
     map u_id (List.map_filter f xs) = filter (\<lambda>x. f x \<noteq> None) xs"
  by (induction xs) (auto simp: map_filter_simps split: option.splits)

lemma set_map_filter: "set (List.map_filter f xs) = {y. \<exists>x \<in> set xs. f x = Some y}"
  by (induction xs) (auto simp: map_filter_simps split: option.splits)

lemma filter_Set_add: "filter (\<lambda>u. u \<noteq> x) (Set_add x xs) = filter (\<lambda>u. u \<noteq> x) xs"
  by (simp add: Set_add_def)

lemma filter_removeAll_same: "filter (\<lambda>u. u \<noteq> x) (removeAll x xs) = filter (\<lambda>u. u \<noteq> x) xs"
  by (induction xs) auto

lemma validateRoomId_nonempty: "validateRoomId (JStr r) \<Longrightarrow> sanitizeString r \<noteq> []"
  by (auto simp: validateRoomId_def Let_def split: if_splits)

lemma members_None: "map_of m r = None \<Longrightarrow> members m r = []"
  by (simp add: members_def)

lemma filter_conj: "filter (\<lambda>u. P u \<and> Q u) xs = filter Q (filter P xs)"
  by (induction xs) auto

text \<open>The Room Index, the Registry and the emissions after a join.\<close>

lemma members_ensure: "members (if map_of m r = None then AList.update r [] m else m) r = members m r"
  by (simp add: members_update members_None)

lemma connectedUsers_if:
  "connectedUsers (if c then a else b) = (if c then connectedUsers a else connectedUsers b)"
  "rooms (if c then a else b) = (if c then rooms a else rooms b)"
  by simp_all

lemma joinRoom_valid:
  assumes sk: "map_of (sockets st) sid = Some sk" and valid: "validateRoomId (JStr r)"
  shows "rooms (fst (joinRoom sid (JStr r) now st)) =
           (let m1 = (if truthy (data_currentRoom sk)
                      then room_remove sid (data_currentRoom sk) (rooms st) else rooms st);
                m2 = (if map_of m1 (sanitizeString r) = None then AList.update (sanitizeString r) [] m1 else m1)
            in AList.update (sanitizeString r) (Set_add sid (members m2 (sanitizeString r))) m2)"
    and "connectedUsers (fst (joinRoom sid (JStr r) now st)) =
           (case map_of (connectedUsers (updateActivity sid now st)) sid of
              None \<Rightarrow> connectedUsers (updateActivity sid now st)
            | Some userData \<Rightarrow>
                AList.update sid (userData\<lparr>u_room := JStr (sanitizeString r), u_lastActivity := now\<rparr>)
                  (connectedUsers (updateActivity sid now st)))"
  using sk valid
  by (cases "map_of (connectedUsers (updateActivity sid now st)) sid";
      simp add: joinRoom_def rooms_updateActivity connectedUsers_if Let_def
        del: room_remove.simps split del: if_split cong: if_cong)+

lemma joinRoom_members:
  assumes sk: "map_of (sockets st) sid = Some sk" and valid: "validateRoomId (JStr r)"
  shows "members (rooms (fst (joinRoom sid (JStr r) now st))) (sanitizeString r) =
           Set_add sid (members (if truthy (data_currentRoom sk)
                                 then room_remove sid (data_currentRoom sk) (rooms st)
                                 else rooms st) (sanitizeString r))"
proof -
  let ?m1 = "if truthy (data_currentRoom sk) then room_remove sid (data_currentRoom sk) (rooms st) else rooms st"
  let ?R = "sanitizeString r"
  let ?m2 = "if map_of ?m1 ?R = None then AList.update ?R [] ?m1 else ?m1"
  have "members ?m2 ?R = members ?m1 ?R"
    by (rule members_ensure)
  then show ?thesis
    unfolding joinRoom_valid(1)[OF sk valid] Let_def members_update by simp
qed

lemma joinRoom_users:
  assumes sk: "map_of (sockets st) sid = Some sk" and valid: "validateRoomId (JStr r)"
  shows "map_of (connectedUsers (fst (joinRoom sid (JStr r) now st))) k =
           map_option (\<lambda>ud. if k = sid then ud\<lparr>u_room := JStr (sanitizeString r), u_lastActivity := now\<rparr> else ud)
             (map_of (connectedUsers st) k)"
  unfolding joinRoom_valid(2)[OF sk valid]
  by (cases "map_of (connectedUsers st) k"; cases "map_of (connectedUsers st) sid")
     (auto simp: map_of_updateActivity update_conv')

lemma joinRoom_out:
  assumes sk: "map_of (sockets st) sid = Some sk" and valid: "validateRoomId (JStr r)"
  shows "snd (joinRoom sid (JStr r) now st) =
           broadcast (filter (\<lambda>x. x \<notin> set (members (adapter (fst (joinRoom sid (JStr r) now st))) sid))
                        (members (adapter (fst (joinRoom sid (JStr r) now st))) (sanitizeString r)))
             (EvUserJoined sid (js_or (data_username sk) (JStr ''Anonymous''))
                (js_or (data_avatar sk) default_avatar) (js_or (data_position sk) default_position)
                (sanitizeString r))
           @ [(sid, EvRoomUsers (roomUsers_of sid (sanitizeString r) (fst (joinRoom sid (JStr r) now st))))]"
  using sk valid
  by (simp add: joinRoom_def Let_def socket_to_def
      del: room_remove.simps split del: if_split cong: if_cong option.case_cong)

text \<open>A join makes the room the connection's current room and puts it in the transport's room.\<close>

lemma joinRoom_enters_room:
  assumes sk: "map_of (sockets st) sid = Some sk" and valid: "validateRoomId (JStr r)"
  shows "currentRoom_of (fst (joinRoom sid (JStr r) now st)) sid = Some (JStr (sanitizeString r))"
    and "sid \<in> set (members (adapter (fst (joinRoom sid (JStr r) now st))) (sanitizeString r))"
    and "sanitizeString r \<noteq> []"
proof -
  have "sockets (fst (joinRoom sid (JStr r) now st)) =
          AList.update sid (sk\<lparr>data_currentRoom := JStr (sanitizeString r)\<rparr>) (sockets st)"
    and "adapter (fst (joinRoom sid (JStr r) now st)) =
          sio_join sid (sanitizeString r)
            (if truthy (data_currentRoom sk) then sio_leave sid (data_currentRoom sk) (adapter st)
             else adapter st)"
    using sk valid
    by (cases "map_of (connectedUsers (updateActivity sid now st)) sid";
        cases "truthy (data_currentRoom sk)";
        simp add: joinRoom_def other_updateActivity Let_def del: room_remove.simps)+
  then show "currentRoom_of (fst (joinRoom sid (JStr r) now st)) sid = Some (JStr (sanitizeString r))"
    and "sid \<in> set (members (adapter (fst (joinRoom sid (JStr r) now st))) (sanitizeString r))"
    by (simp_all add: currentRoom_of_def update_conv' sio_join_def members_update Set_add_def)
  show "sanitizeString r \<noteq> []"
    using valid by (rule validateRoomId_nonempty)
qed

subsection \<open>What every run keeps\<close>

lemma registry_ok_update: "registry_ok us \<Longrightarrow> u_id ud = k \<Longrightarrow> registry_ok (AList.update k ud us)"
  using set_update_subset[of k ud us] by (auto simp: registry_ok_def list_all_iff distinct_update)

lemma registry_ok_delete: "registry_ok us \<Longrightarrow> registry_ok (AList.delete k us)"
  using set_delete_subset[of k us] by (auto simp: registry_ok_def list_all_iff distinct_delete)

lemma registry_ok_filter: "registry_ok us \<Longrightarrow> registry_ok (filter P us)"
  by (auto simp: registry_ok_def list_all_iff distinct_map_filter)

lemma registry_ok_updateActivity:
  "registry_ok (connectedUsers st) \<Longrightarrow> registry_ok (connectedUsers (updateActivity sid now st))"
  by (auto simp: updateActivity_def intro!: registry_ok_update dest: registry_ok_map_of split: option.splits)

lemma registry_ok_touch:
  "registry_ok (connectedUsers st) \<Longrightarrow> map_of (connectedUsers (updateActivity sid now st)) sid = Some ud \<Longrightarrow>
     u_id ud' = u_id ud \<Longrightarrow> registry_ok (AList.update sid ud' (connectedUsers (updateActivity sid now st)))"
  using registry_ok_map_of[of "connectedUsers (updateActivity sid now st)" sid ud]
  by (simp add: registry_ok_update registry_ok_updateActivity)

lemma step_registry_ok:
  "registry_ok (connectedUsers st) \<Longrightarrow> registry_ok (connectedUsers (fst (step a st)))"
proof (cases a)
  case (Connection sid ip)
  assume "registry_ok (connectedUsers st)"
  then show ?thesis using Connection by (auto simp: connection_def Let_def)
next
  case (JoinRoom sid roomId now)
  assume "registry_ok (connectedUsers st)"
  then show ?thesis using JoinRoom
    by (auto simp: joinRoom_def Let_def registry_ok_updateActivity registry_ok_touch
        split: option.splits jsval.splits simp del: room_remove.simps)
next
  case (Move sid pos now)
  assume "registry_ok (connectedUsers st)"
  then show ?thesis using Move
    by (auto simp: move_def Let_def registry_ok_updateActivity registry_ok_touch split: option.splits)
next
  case (SendMessage sid data now rnd)
  assume "registry_ok (connectedUsers st)"
  then show ?thesis using SendMessage
    by (auto simp: sendMessage_def Let_def registry_ok_updateActivity split: option.splits jsval.splits)
next
  case (UpdateAvatar sid av now)
  assume "registry_ok (connectedUsers st)"
  then show ?thesis using UpdateAvatar
    by (auto simp: updateAvatar_def Let_def registry_ok_updateActivity registry_ok_touch split: option.splits)
next
  case (InitializeUser sid userData now)
  assume "registry_ok (connectedUsers st)"
  then show ?thesis using InitializeUser
    by (auto simp: initializeUser_def Let_def registry_ok_updateActivity registry_ok_update
        split: option.splits jsval.splits)
next
  case (Disconnect sid)
  assume "registry_ok (connectedUsers st)"
  then show ?thesis using Disconnect
    by (auto simp: disconnect_def Let_def registry_ok_delete split: option.splits)
next
  case (CleanupInactiveUsers now)
  assume "registry_ok (connectedUsers st)"
  then show ?thesis using CleanupInactiveUsers
    by (simp add: cleanupInactiveUsers_def connectedUsers_fold_cleanup registry_ok_filter)
qed

lemma run_registry_ok: "registry_ok (connectedUsers st) \<Longrightarrow> registry_ok (connectedUsers (run as st))"
  by (induction as arbitrary: st) (simp_all add: step_registry_ok)

lemma rooms_distinct_update: "rooms_distinct m \<Longrightarrow> distinct ms \<Longrightarrow> rooms_distinct (AList.update r ms m)"
  using set_update_subset[of r ms m] by (auto simp: rooms_distinct_def list_all_iff)

lemma rooms_distinct_delete: "rooms_distinct m \<Longrightarrow> rooms_distinct (AList.delete r m)"
  using set_delete_subset[of r m] by (auto simp: rooms_distinct_def list_all_iff)

lemma rooms_distinct_members: "rooms_distinct m \<Longrightarrow> distinct (members m r)"
  by (auto simp: rooms_distinct_def members_def list_all_iff split: option.splits dest: map_of_SomeD)

lemma rooms_distinct_remove: "rooms_distinct m \<Longrightarrow> rooms_distinct (room_remove i v m)"
proof (cases v)
  case (JStr r)
  assume m: "rooms_distinct m"
  show ?thesis
  proof (cases "map_of m r")
    case None
    then show ?thesis using JStr m by simp
  next
    case (Some ms)
    then have "distinct ms"
      using rooms_distinct_members[OF m, of r] by (simp add: members_def)
    then show ?thesis using JStr Some m
      by (simp add: Let_def rooms_distinct_update rooms_distinct_delete distinct_removeAll)
  qed
qed simp_all

lemma distinct_Set_add: "distinct xs \<Longrightarrow> distinct (Set_add x xs)"
  by (simp add: Set_add_def)

lemma step_rooms_distinct: "rooms_distinct (rooms st) \<Longrightarrow> rooms_distinct (rooms (fst (step a st)))"
proof (cases a)
  case (JoinRoom sid roomId now)
  assume "rooms_distinct (rooms st)"
  then show ?thesis using JoinRoom
    by (auto simp: joinRoom_def Let_def rooms_updateActivity rooms_distinct_update rooms_distinct_remove
        rooms_distinct_members distinct_Set_add split: option.splits jsval.splits simp del: room_remove.simps)
next
  case (Disconnect sid)
  assume "rooms_distinct (rooms st)"
  then show ?thesis using Disconnect
    by (auto simp: disconnect_def Let_def rooms_distinct_remove split: option.splits simp del: room_remove.simps)
next
  case (CleanupInactiveUsers now)
  assume m: "rooms_distinct (rooms st)"
  have "rooms_distinct (rooms (fold (cleanup_entry now) es st'))" if "rooms_distinct (rooms st')" for es st'
    using that
    by (induction es arbitrary: st')
       (simp_all add: rooms_cleanup_entry rooms_distinct_remove del: room_remove.simps)
  then show ?thesis using CleanupInactiveUsers m by (simp add: cleanupInactiveUsers_def)
qed (simp_all add: rooms_connection rooms_move rooms_sendMessage rooms_updateAvatar rooms_initializeUser)

lemma run_rooms_distinct: "rooms_distinct (rooms st) \<Longrightarrow> rooms_distinct (rooms (run as st))"
  by (induction as arbitrary: st) (simp_all add: step_rooms_distinct)

text \<open>Every state the server can reach meets the hypotheses of the theorems below.\<close>

lemma reachable_ok:
  "registry_ok (connectedUsers (run as initial_server))"
  "distinct (members (rooms (run as initial_server)) r)"
proof -
  have "registry_ok (connectedUsers initial_server)" "rooms_distinct (rooms initial_server)"
    by (simp_all add: initial_server_def registry_ok_def rooms_distinct_def)
  then show "registry_ok (connectedUsers (run as initial_server))"
    "distinct (members (rooms (run as initial_server)) r)"
    by (simp_all add: run_registry_ok run_rooms_distinct rooms_distinct_members)
qed

subsection \<open>The scenario states, evaluated\<close>

lemma lobby_state_eval:
  "map fst (connectedUsers lobby_state) = [''A'', ''B'']"
  "map (\<lambda>(k, ud). (u_id ud, u_room ud, u_lastActivity ud)) (connectedUsers lobby_state) =
     [(''A'', JStr ''lobby'', 1000), (''B'', JStr ''lobby'', 3000)]"
  "rooms lobby_state = [(''lobby'', [''A'', ''B''])]"
  "adapter lobby_state = [(''A'', [''A'']), (''lobby'', [''A'', ''B'']), (''B'', [''B''])]"
  by code_simp+

subsection \<open>More scenario states, evaluated\<close>

lemma fresh_state_eval:
  "connected fresh_state ''A''"
  "rooms fresh_state = []"
  "validateUserData alice"
  "validateUserData alice_red"
  by code_simp+

lemma avatar_state_eval:
  "connected avatar_state ''A''"
  "get_prop (avatar_of avatar_state ''A'') ''name'' = JStr ''Bob''"
  "get_prop (avatar_of avatar_state ''A'') ''color'' = JStr ''#3b82f6''"
  by code_simp+

lemma lobby_A:
  "map_of (sockets lobby_state) ''A'' =
     Some \<lparr>address = ''10.0.0.1'', data_currentRoom = JStr ''lobby'', data_username = JStr ''Alice'',
           data_avatar = default_avatar, data_position = default_position, lastMoveTime = 0\<rparr>"
  "map_of (connectedUsers lobby_state) ''A'' =
     Some \<lparr>u_id = ''A'', u_username = ''Alice'', u_avatar = default_avatar, u_position = default_position,
           u_room = JStr ''lobby'', u_lastActivity = 1000, u_connectionCount = 1, u_isActive = True\<rparr>"
  by code_simp+

lemma hi_eval:
  "\<not> nullish hi"
  "get_prop hi ''message'' = JStr '' <hi> ''"
  "get_prop hi ''type'' = JUndefined"
  "validateMessage (JStr '' <hi> '')"
  "sanitizeString '' <hi> '' = ''hi''"
  by code_simp+

lemma lobby_message_eval:
  "members (adapter lobby_state) ''lobby'' = [''A'', ''B'']"
  "map (\<lambda>(x, e). (x, case e of EvMessageReceived msg \<Rightarrow> (m_message msg, m_type msg) | _ \<Rightarrow> ([], [])))
     (snd (sendMessage ''A'' hi 5000 ''k3j9x2q1z'' lobby_state))
   = [(''A'', ''hi'', ''chat''), (''B'', ''hi'', ''chat'')]"
  by (simp_all add: sendMessage_def lobby_A hi_eval lobby_state_eval Let_def broadcast_def
      members_def updateActivity_def)

lemma before_join_eval:
  "connected before_join_state ''B''"
  "validateRoomId (JStr ''lobby'')"
  "sanitizeString ''lobby'' = ''lobby''"
  "map (\<lambda>(x, e). (x, snapshot_ids e)) (snd (joinRoom ''B'' (JStr ''lobby'') 3000 before_join_state))
     = [(''A'', []), (''B'', [''A''])]"
  by code_simp+

lemma validateUserData_username:
  "validateUserData userData \<Longrightarrow> \<exists>u. get_prop userData ''username'' = JStr u"
  by (auto simp: validateUserData_def Let_def split: if_splits jsval.splits)

lemma get_prop_validAvatar:
  "get_prop (validAvatar_of av) ''id'' =
     (case get_prop av ''id'' of JStr s \<Rightarrow> JStr (sanitizeString s) | _ \<Rightarrow> JStr ''default'')"
  "get_prop (validAvatar_of av) ''name'' =
     (case get_prop av ''name'' of JStr s \<Rightarrow> JStr (sanitizeString s) | _ \<Rightarrow> JStr ''Default'')"
  "get_prop (validAvatar_of av) ''model'' =
     (case get_prop av ''model'' of JStr s \<Rightarrow> JStr (sanitizeString s) | _ \<Rightarrow> JStr ''default'')"
  "get_prop (validAvatar_of av) ''color'' =
     (case get_prop av ''color'' of
        JStr s \<Rightarrow> if hex_color s then JStr s else JStr ''#3b82f6''
      | _ \<Rightarrow> JStr ''#3b82f6'')"
  "get_prop (validAvatar_of av) ''accessories'' =
     (case get_prop av ''accessories'' of JArr xs \<Rightarrow> JArr (filter typeof_string xs) | _ \<Rightarrow> JArr [])"
  "get_prop (validAvatar_of av) ''position'' =
     (if validatePosition (get_prop av ''position'') then get_prop av ''position'' else default_position)"
  by (simp_all add: validAvatar_of_def)

section \<open>Initialization stores the record but joins no room\<close>

text \<open>
  Claim C1 says that a successful initializeUser leaves the identity a member of the Room
  Index entry of its room. The code does not do that. For a live connection and valid
  user data, the handler files a record whose \<^verbatim>\<open>room\<close> is the requested room (or
  \<^verbatim>\<open>'lobby'\<close>), which is never empty, and then leaves both the Room Index and the
  transport's rooms exactly as they were: its last step, under the comment
  \<^verbatim>\<open>// Join default room\<close>, emits a \<^verbatim>\<open>joinRoom\<close> event to the client instead of joining.
\<close>

theorem initializeUser_does_not_join:
  assumes "connected st sid" and "validateUserData userData"
  shows "room_of (fst (initializeUser sid userData now st)) sid = js_or (get_prop userData ''room'') (JStr ''lobby'')
       \<and> truthy (room_of (fst (initializeUser sid userData now st)) sid)
       \<and> rooms (fst (initializeUser sid userData now st)) = rooms st
       \<and> adapter (fst (initializeUser sid userData now st)) = adapter st
       \<and> snd (initializeUser sid userData now st) = [(sid, EvJoinRoom (js_or (get_prop userData ''room'') (JStr ''lobby'')))]"
proof -
  obtain sk where sk: "map_of (sockets st) sid = Some sk"
    using assms(1) by (auto simp: connected_def)
  obtain u where u: "get_prop userData ''username'' = JStr u"
    using validateUserData_username[OF assms(2)] by blast
  show ?thesis
    using sk u assms(2)
    by (simp add: initializeUser_def Let_def room_of_def update_conv' js_or_def rooms_updateActivity other_updateActivity)
qed

text \<open>
  A fresh connection initializes as Alice: her record names the lobby, and the lobby has
  no members.
\<close>

theorem initializeUser_does_not_join_witness:
  "connected fresh_state ''A'' \<and> validateUserData alice
   \<and> room_of (fst (initializeUser ''A'' alice 1000 fresh_state)) ''A'' = JStr ''lobby''
   \<and> members (rooms (fst (initializeUser ''A'' alice 1000 fresh_state))) ''lobby'' = []
   \<and> snd (initializeUser ''A'' alice 1000 fresh_state) = [(''A'', EvJoinRoom (JStr ''lobby''))]"
proof -
  have h: "connected fresh_state ''A''" "validateUserData alice"
    by (rule fresh_state_eval)+
  have e: "js_or (get_prop alice ''room'') (JStr ''lobby'') = JStr ''lobby''"
    by code_simp
  show ?thesis
    using h e initializeUser_does_not_join [OF h, of 1000]
    by (simp add: fresh_state_eval members_def)
qed

section \<open>The membership snapshot of a join\<close>

text \<open>
  Claim C2, as the code has it. A live connection joins a room with a valid id, in a
  state whose Registry files each record under its own id and whose member set for the
  room has no repetitions (every reachable state is such). The server first emits one
  \<^verbatim>\<open>userJoined\<close> for the joiner to each connection that is in the transport's room of that
  name and is not in the transport room named by the joiner's own identity, and then one
  \<^verbatim>\<open>roomUsers\<close> snapshot, to the joining connection only. The snapshot lists, in member
  order and without repetition, the Registry records of exactly those members of the room
  at the instant of insertion that are not the joiner and have a Registry record: members
  that never initialized are left out. The joiner is a member after the join, and the
  other members are those from before the join.
\<close>

theorem joinRoom_snapshot:
  assumes conn: "connected st sid" and valid: "validateRoomId (JStr r)"
    and reg: "registry_ok (connectedUsers st)"
    and dist: "distinct (members (rooms st) (sanitizeString r))"
  shows "\<exists>ev snap.
           snd (joinRoom sid (JStr r) now st) =
             broadcast (filter (\<lambda>x. x \<notin> set (members (adapter (fst (joinRoom sid (JStr r) now st))) sid))
                          (members (adapter (fst (joinRoom sid (JStr r) now st))) (sanitizeString r))) ev
             @ [(sid, EvRoomUsers snap)]
         \<and> (\<exists>u a p. ev = EvUserJoined sid u a p (sanitizeString r))
         \<and> map u_id snap =
             filter (\<lambda>u. u \<noteq> sid \<and> map_of (connectedUsers (fst (joinRoom sid (JStr r) now st))) u \<noteq> None)
               (members (rooms (fst (joinRoom sid (JStr r) now st))) (sanitizeString r))
         \<and> (\<forall>ud \<in> set snap. map_of (connectedUsers (fst (joinRoom sid (JStr r) now st))) (u_id ud) = Some ud)
         \<and> distinct (map u_id snap)
         \<and> sid \<in> set (members (rooms (fst (joinRoom sid (JStr r) now st))) (sanitizeString r))
         \<and> filter (\<lambda>u. u \<noteq> sid) (members (rooms (fst (joinRoom sid (JStr r) now st))) (sanitizeString r))
             = filter (\<lambda>u. u \<noteq> sid) (members (rooms st) (sanitizeString r))"
proof -
  let ?R = "sanitizeString r"
  let ?st' = "fst (joinRoom sid (JStr r) now st)"
  let ?snap = "roomUsers_of sid ?R ?st'"
  obtain sk where sk: "map_of (sockets st) sid = Some sk"
    using conn by (auto simp: connected_def)
  note mem = joinRoom_members[OF sk valid, of now]
  note users = joinRoom_users[OF sk valid, of now]
  have keyed: "u_id ud = k" if "map_of (connectedUsers ?st') k = Some ud" for k ud
    using that registry_ok_map_of[OF reg, of k] by (auto simp: users split: if_splits)
  have others: "filter (\<lambda>u. u \<noteq> sid) (members (rooms ?st') ?R) = filter (\<lambda>u. u \<noteq> sid) (members (rooms st) ?R)"
    by (simp add: mem filter_Set_add members_room_remove filter_removeAll_same del: room_remove.simps)
  have ids: "map u_id ?snap =
      filter (\<lambda>u. u \<noteq> sid \<and> map_of (connectedUsers ?st') u \<noteq> None) (members (rooms ?st') ?R)"
    unfolding roomUsers_of_def using keyed
    by (subst map_u_id_map_filter) (auto intro: filter_cong)
  have filed: "\<forall>ud \<in> set ?snap. map_of (connectedUsers ?st') (u_id ud) = Some ud"
    using keyed by (auto simp: roomUsers_of_def set_map_filter)
  have "distinct (filter (\<lambda>u. u \<noteq> sid) (members (rooms ?st') ?R))"
    using dist by (simp add: others)
  then have nodup: "distinct (map u_id ?snap)"
    unfolding ids filter_conj by (rule distinct_filter)
  have self: "sid \<in> set (members (rooms ?st') ?R)"
    by (simp add: mem Set_add_def)
  let ?ev = "EvUserJoined sid (js_or (data_username sk) (JStr ''Anonymous''))
                (js_or (data_avatar sk) default_avatar) (js_or (data_position sk) default_position) ?R"
  have out: "snd (joinRoom sid (JStr r) now st) =
      broadcast (filter (\<lambda>x. x \<notin> set (members (adapter ?st') sid)) (members (adapter ?st') ?R)) ?ev
      @ [(sid, EvRoomUsers ?snap)]"
    by (rule joinRoom_out[OF sk valid])
  have ev: "\<exists>u a p. ?ev = EvUserJoined sid u a p ?R"
    by blast
  show ?thesis
    by (intro exI[of _ ?ev] exI[of _ ?snap] conjI) (rule out ev ids filed nodup self others)+
qed

text \<open>
  In the lobby scenario Bob's join sends \<^verbatim>\<open>userJoined\<close> to Alice and to Bob a snapshot
  that holds Alice and not Bob.
\<close>

theorem joinRoom_snapshot_witness:
  "connected before_join_state ''B'' \<and> validateRoomId (JStr ''lobby'')
   \<and> registry_ok (connectedUsers before_join_state)
   \<and> distinct (members (rooms before_join_state) (sanitizeString ''lobby''))
   \<and> map (\<lambda>(x, e). (x, snapshot_ids e)) (snd (joinRoom ''B'' (JStr ''lobby'') 3000 before_join_state))
        = [(''A'', []), (''B'', [''A''])]"
proof -
  have h: "connected before_join_state ''B''" "validateRoomId (JStr ''lobby'')"
    "registry_ok (connectedUsers before_join_state)"
    "distinct (members (rooms before_join_state) (sanitizeString ''lobby''))"
    unfolding before_join_state_def[symmetric]
    by (simp_all add: before_join_eval(1,2)) (simp_all add: before_join_state_def reachable_ok)
  show ?thesis
    using h before_join_eval(4) joinRoom_snapshot [OF h, of 3000] by blast
qed

text \<open>
  The claim as stated, that the snapshot contains every other member of the room, fails:
  Bob has joined the lobby without initializing, Alice then joins it, Bob is a member of
  the lobby at that instant, and her snapshot is empty.
\<close>

theorem joinRoom_snapshot_omits_uninitialized:
  "''B'' \<in> set (members (rooms (fst (joinRoom ''A'' (JStr ''lobby'') 2001 bare_state))) ''lobby'')
   \<and> ''B'' \<noteq> ''A''
   \<and> snd (joinRoom ''A'' (JStr ''lobby'') 2001 bare_state)
       = [(''B'', EvUserJoined ''A'' (JStr ''Alice'') default_avatar default_position ''lobby''),
          (''A'', EvRoomUsers [])]"
  by (intro conjI; code_simp)

section \<open>Avatar updates\<close>

text \<open>
  Claim C3, as the code has it. For a live connection, an avatar payload that is an
  object (or array) is never rejected: the handler stores, in the connection's data and
  in the Registry record if there is one, an avatar built from the payload alone, and
  broadcasts that avatar. Nothing of the previously stored avatar is kept. In the avatar
  built, each of \<^verbatim>\<open>id\<close>, \<^verbatim>\<open>name\<close>, \<^verbatim>\<open>model\<close> is the payload's string sanitized, or its default
  when the payload has no string there; \<^verbatim>\<open>color\<close> is the payload's when it is a string
  matching \<^verbatim>\<open>#RRGGBB\<close> in either case and the default \<^verbatim>\<open>#3b82f6\<close> otherwise; \<^verbatim>\<open>accessories\<close>
  are the strings of the payload's array, or none; \<^verbatim>\<open>position\<close> is the payload's when
  valid and the origin otherwise. Only a payload that is not an object is rejected, with
  an error and no change to the stored avatar.
\<close>

theorem updateAvatar_rebuilds_avatar:
  assumes "connected st sid"
  shows "(truthy av \<and> typeof_object av \<longrightarrow>
            data_avatar_of (fst (updateAvatar sid av now st)) sid = Some (validAvatar_of av)
          \<and> (map_of (connectedUsers st) sid \<noteq> None \<longrightarrow>
               avatar_of (fst (updateAvatar sid av now st)) sid = validAvatar_of av)
          \<and> (\<forall>e \<in> set (snd (updateAvatar sid av now st)). snd e = EvAvatarUpdated sid (validAvatar_of av)))
       \<and> (\<not> (truthy av \<and> typeof_object av) \<longrightarrow>
            snd (updateAvatar sid av now st) = [(sid, EvError ''Invalid avatar data'')]
          \<and> data_avatar_of (fst (updateAvatar sid av now st)) sid = data_avatar_of st sid
          \<and> avatar_of (fst (updateAvatar sid av now st)) sid = avatar_of st sid)
       \<and> get_prop (validAvatar_of av) ''id'' =
            (case get_prop av ''id'' of JStr s \<Rightarrow> JStr (sanitizeString s) | _ \<Rightarrow> JStr ''default'')
       \<and> get_prop (validAvatar_of av) ''name'' =
            (case get_prop av ''name'' of JStr s \<Rightarrow> JStr (sanitizeString s) | _ \<Rightarrow> JStr ''Default'')
       \<and> get_prop (validAvatar_of av) ''model'' =
            (case get_prop av ''model'' of JStr s \<Rightarrow> JStr (sanitizeString s) | _ \<Rightarrow> JStr ''default'')
       \<and> get_prop (validAvatar_of av) ''color'' =
            (case get_prop av ''color'' of
               JStr s \<Rightarrow> if hex_color s then JStr s else JStr ''#3b82f6''
             | _ \<Rightarrow> JStr ''#3b82f6'')
       \<and> get_prop (validAvatar_of av) ''accessories'' =
            (case get_prop av ''accessories'' of JArr xs \<Rightarrow> JArr (filter typeof_string xs) | _ \<Rightarrow> JArr [])
       \<and> get_prop (validAvatar_of av) ''position'' =
            (if validatePosition (get_prop av ''position'') then get_prop av ''position'' else default_position)"
proof -
  obtain sk where sk: "map_of (sockets st) sid = Some sk"
    using assms by (auto simp: connected_def)
  have activity: "avatar_of (updateActivity sid now st) sid = avatar_of st sid"
    by (cases "map_of (connectedUsers st) sid") (simp_all add: avatar_of_def map_of_updateActivity)
  have ok: "data_avatar_of (fst (updateAvatar sid av now st)) sid = Some (validAvatar_of av)
          \<and> (map_of (connectedUsers st) sid \<noteq> None \<longrightarrow>
               avatar_of (fst (updateAvatar sid av now st)) sid = validAvatar_of av)
          \<and> (\<forall>e \<in> set (snd (updateAvatar sid av now st)). snd e = EvAvatarUpdated sid (validAvatar_of av))"
    if "truthy av" "typeof_object av"
    using sk that
    by (auto simp: updateAvatar_def Let_def data_avatar_of_def avatar_of_def update_conv'
        other_updateActivity map_of_updateActivity broadcast_def split: option.splits)
  have rejected: "snd (updateAvatar sid av now st) = [(sid, EvError ''Invalid avatar data'')]
          \<and> data_avatar_of (fst (updateAvatar sid av now st)) sid = data_avatar_of st sid
          \<and> avatar_of (fst (updateAvatar sid av now st)) sid = avatar_of st sid"
    if "\<not> (truthy av \<and> typeof_object av)"
    using sk that activity
    by (auto simp: updateAvatar_def Let_def data_avatar_of_def other_updateActivity)
  show ?thesis
    using ok rejected by (simp only: get_prop_validAvatar) blast
qed

text \<open>
  Alice, whose avatar is named Bob, sends the color \<^verbatim>\<open>red\<close> and the id \<^verbatim>\<open> <a1> \<close>: the
  update is accepted, the color is the default, the id is sanitized, and Bob is told.
\<close>

theorem updateAvatar_rebuilds_avatar_witness:
  "connected avatar_state ''A''
   \<and> avatar_of (fst (updateAvatar ''A'' (JObj [(''color'', JStr ''red''), (''id'', JStr '' <a1> '')]) 5000 avatar_state)) ''A''
       = JObj [(''id'', JStr ''a1''), (''name'', JStr ''Default''), (''model'', JStr ''default''),
               (''color'', JStr ''#3b82f6''), (''accessories'', JArr []), (''position'', default_position)]
   \<and> snd (updateAvatar ''A'' (JObj [(''color'', JStr ''red''), (''id'', JStr '' <a1> '')]) 5000 avatar_state)
       = [(''B'', EvAvatarUpdated ''A'' (validAvatar_of (JObj [(''color'', JStr ''red''), (''id'', JStr '' <a1> '')])))]"
proof -
  have h: "connected avatar_state ''A''" by (rule avatar_state_eval)
  have e: "avatar_of (fst (updateAvatar ''A'' (JObj [(''color'', JStr ''red''), (''id'', JStr '' <a1> '')]) 5000 avatar_state)) ''A''
       = JObj [(''id'', JStr ''a1''), (''name'', JStr ''Default''), (''model'', JStr ''default''),
               (''color'', JStr ''#3b82f6''), (''accessories'', JArr []), (''position'', default_position)]"
     "snd (updateAvatar ''A'' (JObj [(''color'', JStr ''red''), (''id'', JStr '' <a1> '')]) 5000 avatar_state)
       = [(''B'', EvAvatarUpdated ''A'' (validAvatar_of (JObj [(''color'', JStr ''red''), (''id'', JStr '' <a1> '')])))]"
    by code_simp+
  show ?thesis
    using h e updateAvatar_rebuilds_avatar [OF h, of "JObj [(''color'', JStr ''red''), (''id'', JStr '' <a1> '')]" 5000]
    by blast
qed

text \<open>
  The claim as stated, that the update is merged over the existing avatar, fails: Alice's
  avatar is named Bob, she sends only a color, and her stored avatar is named Default.
\<close>

theorem updateAvatar_forgets_existing_fields:
  "get_prop (avatar_of avatar_state ''A'') ''name'' = JStr ''Bob''
   \<and> get_prop (JObj [(''color'', JStr ''#FF0000'')]) ''name'' = JUndefined
   \<and> get_prop (avatar_of (fst (updateAvatar ''A'' (JObj [(''color'', JStr ''#FF0000'')]) 5000 avatar_state)) ''A'') ''name''
       = JStr ''Default''"
  by (intro conjI; code_simp)

section \<open>Rate-limited moves\<close>

text \<open>
  Claim C4, as the code has it. A connection's move at time \<open>t1\<close> passes the rate check
  (at least 100 ms after its \<^verbatim>\<open>lastMoveTime\<close>) with a valid position, and a second move with
  a valid position arrives less than 100 ms later. The second move is dropped silently:
  it emits nothing (no \<^verbatim>\<open>userMoved\<close>, no error), and it leaves the connections, the Room
  Index, the transport rooms, the per-address counters and every field of every Registry
  record unchanged, except that the sender's \<^verbatim>\<open>lastActivity\<close> is refreshed, as on every
  inbound event: the state after it is the state before it with \<^verbatim>\<open>updateActivity\<close> applied.
\<close>

theorem rate_limited_move_only_touches:
  assumes sk: "lastMoveTime_of st sid = Some t0"
    and pass: "t1 - t0 \<ge> 100"
    and v1: "validatePosition p1"
    and v2: "validatePosition p2"
    and soon: "t2 - t1 < 100"
  shows "snd (move sid p2 t2 (fst (move sid p1 t1 st))) = []
       \<and> sockets (fst (move sid p2 t2 (fst (move sid p1 t1 st)))) = sockets (fst (move sid p1 t1 st))
       \<and> rooms (fst (move sid p2 t2 (fst (move sid p1 t1 st)))) = rooms (fst (move sid p1 t1 st))
       \<and> adapter (fst (move sid p2 t2 (fst (move sid p1 t1 st)))) = adapter (fst (move sid p1 t1 st))
       \<and> ipConnections (fst (move sid p2 t2 (fst (move sid p1 t1 st)))) = ipConnections (fst (move sid p1 t1 st))
       \<and> without_activity (connectedUsers (fst (move sid p2 t2 (fst (move sid p1 t1 st)))))
         = without_activity (connectedUsers (fst (move sid p1 t1 st)))
       \<and> fst (move sid p2 t2 (fst (move sid p1 t1 st))) = updateActivity sid t2 (fst (move sid p1 t1 st))"
proof -
  let ?s1 = "fst (move sid p1 t1 st)"
  have "\<exists>sk1. map_of (sockets ?s1) sid = Some sk1 \<and> lastMoveTime sk1 = t1"
    using sk pass v1
    by (auto simp: lastMoveTime_of_def move_def Let_def POSITION_UPDATE_INTERVAL_def other_updateActivity update_conv'
        split: option.splits)
  then obtain sk1 where sk1: "map_of (sockets ?s1) sid = Some sk1" "lastMoveTime sk1 = t1"
    by blast
  have "move sid p2 t2 ?s1 = (updateActivity sid t2 ?s1, [])"
    using sk1 soon by (simp add: move_def Let_def POSITION_UPDATE_INTERVAL_def)
  then show ?thesis
    by (simp add: other_updateActivity rooms_updateActivity without_activity_updateActivity)
qed

text \<open>
  In the lobby scenario Alice moves to \<open>pos_a\<close> at 5000 and again at 5050: the second
  move emits nothing and her stored position is still the first one.
\<close>

theorem rate_limited_move_only_touches_witness:
  "lastMoveTime_of lobby_state ''A'' = Some 0 \<and> (5000::int) - 0 \<ge> 100 \<and> validatePosition pos_a
   \<and> (5050::int) - 5000 < 100
   \<and> snd (move ''A'' pos_a 5050 (fst (move ''A'' pos_a 5000 lobby_state))) = []
   \<and> position_of (fst (move ''A'' pos_a 5050 (fst (move ''A'' pos_a 5000 lobby_state)))) ''A'' = pos_a"
proof -
  have h: "lastMoveTime_of lobby_state ''A'' = Some 0" by (rule lobby_sockets_eval)
  have t: "(5000::int) - 0 \<ge> 100" "(5050::int) - 5000 < 100" by simp_all
  have e: "position_of (fst (move ''A'' pos_a 5050 (fst (move ''A'' pos_a 5000 lobby_state)))) ''A'' = pos_a"
    by code_simp
  show ?thesis
    using h t e pos_a_valid
      rate_limited_move_only_touches [OF h t(1) pos_a_valid pos_a_valid t(2)]
    by blast
qed

text \<open>
  The claim as stated, that the second move leaves all server state unchanged, fails for
  the same two moves: the second one is dropped but it has advanced Alice's \<^verbatim>\<open>lastActivity\<close>
  from 5000 to 5050.
\<close>

theorem second_move_touches_activity:
  "validatePosition pos_a \<and> lastMoveTime_of lobby_state ''A'' = Some 0 \<and> (5000::int) - 0 \<ge> 100
   \<and> (5050::int) - 5000 < 100
   \<and> fst (move ''A'' pos_a 5050 (fst (move ''A'' pos_a 5000 lobby_state))) \<noteq> fst (move ''A'' pos_a 5000 lobby_state)"
proof -
  have "map (\<lambda>(k, ud). u_lastActivity ud) (connectedUsers (fst (move ''A'' pos_a 5050 (fst (move ''A'' pos_a 5000 lobby_state))))) = [5050, 3000]"
    by code_simp
  moreover have "map (\<lambda>(k, ud). u_lastActivity ud) (connectedUsers (fst (move ''A'' pos_a 5000 lobby_state))) = [5000, 3000]"
    by code_simp
  ultimately have "fst (move ''A'' pos_a 5050 (fst (move ''A'' pos_a 5000 lobby_state))) \<noteq> fst (move ''A'' pos_a 5000 lobby_state)"
    by auto
  then show ?thesis using pos_a_valid lobby_sockets_eval by simp
qed

section \<open>The inactivity sweep\<close>

text \<open>
  Claim C5. From a Registry with one entry per identity, the sweep at time \<open>now\<close> keeps
  exactly the records whose last activity is at most 300000 ms (5 minutes) old and removes
  the others: a record 301000 ms old is gone, a record 299000 ms old is still there. Every
  removed record that names a room is no longer a member of that room's Room Index entry,
  and the room memberships of the records that stay are untouched.
\<close>

theorem sweep_removes_exactly_inactive:
  assumes "distinct (map fst (connectedUsers st))"
  shows "connectedUsers (cleanupInactiveUsers now st) =
           filter (\<lambda>(k, ud). \<not> now - u_lastActivity ud > 300000) (connectedUsers st)
       \<and> (\<forall>(k, ud) \<in> set (connectedUsers st).
            (now - u_lastActivity ud = 301000 \<longrightarrow> map_of (connectedUsers (cleanupInactiveUsers now st)) k = None)
          \<and> (now - u_lastActivity ud = 299000 \<longrightarrow> map_of (connectedUsers (cleanupInactiveUsers now st)) k = Some ud)
          \<and> (now - u_lastActivity ud > 300000 \<longrightarrow>
               (\<forall>r. u_room ud = JStr r \<and> r \<noteq> [] \<longrightarrow> k \<notin> set (members (rooms (cleanupInactiveUsers now st)) r)))
          \<and> (\<not> now - u_lastActivity ud > 300000 \<longrightarrow>
               (\<forall>r. k \<in> set (members (rooms (cleanupInactiveUsers now st)) r) \<longleftrightarrow> k \<in> set (members (rooms st) r))))"
proof -
  let ?st' = "cleanupInactiveUsers now st"
  have ex: "expired now ud \<longleftrightarrow> now - u_lastActivity ud > 300000" for ud
    by (simp add: expired_def INACTIVITY_TIMEOUT_def)
  have users: "connectedUsers ?st' = filter (\<lambda>e. \<not> expired now (snd e)) (connectedUsers st)"
    using assms by (simp add: cleanupInactiveUsers_def connectedUsers_fold_cleanup filter_distinct_keys)
  have dist': "distinct (map fst (connectedUsers ?st'))"
    using assms by (simp add: users distinct_map_filter)
  have gone: "map_of (connectedUsers ?st') k = None" if "(k, ud) \<in> set (connectedUsers st)" "expired now ud" for k ud
  proof -
    have "k \<notin> fst ` set (connectedUsers ?st')"
      using that assms by (auto simp: users dest: eq_key_imp_eq_value)
    then show ?thesis by (simp add: map_of_eq_None_iff)
  qed
  have kept: "map_of (connectedUsers ?st') k = Some ud" if "(k, ud) \<in> set (connectedUsers st)" "\<not> expired now ud" for k ud
    using that dist' by (intro map_of_is_SomeI) (auto simp: users)
  have left: "k \<notin> set (members (rooms ?st') r)"
    if "(k, ud) \<in> set (connectedUsers st)" "expired now ud" "u_room ud = JStr r" "r \<noteq> []" for k ud r
    using members_fold_cleanup_removed[of "(k, ud)" "connectedUsers st" now r st] that
    by (simp add: cleanupInactiveUsers_def)
  have stay: "k \<in> set (members (rooms ?st') r) \<longleftrightarrow> k \<in> set (members (rooms st) r)"
    if "(k, ud) \<in> set (connectedUsers st)" "\<not> expired now ud" for k ud r
  proof -
    have "k \<notin> set (expired_keys now (connectedUsers st))"
      using that assms by (auto simp: expired_keys_def dest: eq_key_imp_eq_value)
    then show ?thesis by (simp add: cleanupInactiveUsers_def members_fold_cleanup_kept)
  qed
  have "connectedUsers ?st' = filter (\<lambda>(k, ud). \<not> now - u_lastActivity ud > 300000) (connectedUsers st)"
    unfolding users by (rule filter_cong) (auto simp: ex)
  moreover have "\<forall>(k, ud) \<in> set (connectedUsers st).
            (now - u_lastActivity ud = 301000 \<longrightarrow> map_of (connectedUsers ?st') k = None)
          \<and> (now - u_lastActivity ud = 299000 \<longrightarrow> map_of (connectedUsers ?st') k = Some ud)
          \<and> (now - u_lastActivity ud > 300000 \<longrightarrow>
               (\<forall>r. u_room ud = JStr r \<and> r \<noteq> [] \<longrightarrow> k \<notin> set (members (rooms ?st') r)))
          \<and> (\<not> now - u_lastActivity ud > 300000 \<longrightarrow>
               (\<forall>r. k \<in> set (members (rooms ?st') r) \<longleftrightarrow> k \<in> set (members (rooms st) r)))"
    using gone kept left stay by (auto simp: ex)
  ultimately show ?thesis by blast
qed

text \<open>
  In the lobby scenario, swept at time 302000, Alice (last active at 1000, so 301000 ms
  ago) is removed from the Registry and from the lobby, and Bob (last active at 3000,
  299000 ms ago) stays in both.
\<close>

theorem sweep_removes_exactly_inactive_witness:
  "distinct (map fst (connectedUsers lobby_state))
   \<and> map fst (connectedUsers (cleanupInactiveUsers 302000 lobby_state)) = [''B'']
   \<and> rooms (cleanupInactiveUsers 302000 lobby_state) = [(''lobby'', [''B''])]"
proof -
  have h: "distinct (map fst (connectedUsers lobby_state))"
    by (simp add: lobby_state_eval)
  have e: "map fst (connectedUsers (cleanupInactiveUsers 302000 lobby_state)) = [''B'']"
          "rooms (cleanupInactiveUsers 302000 lobby_state) = [(''lobby'', [''B''])]"
    by code_simp+
  show ?thesis using h e sweep_removes_exactly_inactive [OF h, of 302000] by blast
qed

section \<open>Rooms whose last member has left\<close>

text \<open>
  No handler and no sweep leaves an empty member set in the Room Index: over any run that
  starts without one, a room id is present exactly when its member set is non-empty.
\<close>

lemma rooms_present_iff_nonempty:
  assumes "rooms_ok (rooms st)"
  shows "rooms_ok (rooms (run as st))
       \<and> (\<forall>r. room_exists (rooms (run as st)) r \<longleftrightarrow> members (rooms (run as st)) r \<noteq> [])"
  using run_rooms_ok [OF assms, of as] rooms_ok_iff by blast

text \<open>
  In the lobby scenario Alice disconnects and the lobby persists with Bob; then Bob
  disconnects and the lobby is no longer in the Room Index.
\<close>

lemma lobby_deleted_with_last_member:
  "rooms (run [Disconnect ''A''] lobby_state) = [(''lobby'', [''B''])]"
  "rooms (run [Disconnect ''A'', Disconnect ''B''] lobby_state) = []"
  by code_simp+

text \<open>
  Claim C6 says that a room's entry is deleted when its last member leaves, by
  disconnect as by any other path. The code does not do that for every member. The
  disconnect handler takes the connection out of the one room that its
  \<^verbatim>\<open>socket.data.currentRoom\<close> names and out of no other: for a live connection and any room
  \<open>r\<close> that is not its current room, the member set of \<open>r\<close> is the same after the disconnect
  as before, although the connection is gone. The joinRoom handler leaves the current
  room before it changes \<^verbatim>\<open>currentRoom\<close>; initializeUser changes \<^verbatim>\<open>currentRoom\<close> without
  leaving it, so a connection that joined a room and then initialized stays in that
  room's member set after it disconnects, and the room is never deleted.
\<close>

theorem disconnect_leaves_other_rooms:
  assumes "connected st sid" and "currentRoom_of st sid \<noteq> Some (JStr r)"
  shows "members (rooms (fst (disconnect sid st))) r = members (rooms st) r
       \<and> \<not> connected (fst (disconnect sid st)) sid"
proof -
  obtain sk where sk: "map_of (sockets st) sid = Some sk"
    using assms(1) by (auto simp: connected_def)
  have cur: "data_currentRoom sk \<noteq> JStr r"
    using assms(2) sk by (simp add: currentRoom_of_def)
  have "rooms (fst (disconnect sid st)) =
          (if truthy (data_currentRoom sk) then room_remove sid (data_currentRoom sk) (rooms st)
           else rooms st)"
    and gone: "sockets (fst (disconnect sid st)) = AList.delete sid (sockets st)"
    using sk
    by (cases "truthy (data_currentRoom sk)";
        simp add: disconnect_def Let_def del: room_remove.simps)+
  then have "members (rooms (fst (disconnect sid st))) r = members (rooms st) r"
    using cur by (simp add: members_room_remove del: room_remove.simps)
  moreover have "\<not> connected (fst (disconnect sid st)) sid"
    by (simp add: connected_def gone delete_conv')
  ultimately show ?thesis by blast
qed

text \<open>
  Alice joins the arena, initializes (her current room becomes the lobby) and
  disconnects: no connection is left, and the arena is still in the Room Index with
  Alice as its member.
\<close>

theorem disconnect_leaves_other_rooms_witness:
  "connected ghost_state ''A'' \<and> currentRoom_of ghost_state ''A'' \<noteq> Some (JStr ''arena'')
   \<and> members (rooms ghost_state) ''arena'' = [''A'']
   \<and> sockets (fst (disconnect ''A'' ghost_state)) = []
   \<and> rooms (fst (disconnect ''A'' ghost_state)) = [(''arena'', [''A''])]
   \<and> room_exists (rooms (fst (disconnect ''A'' ghost_state))) ''arena''"
proof -
  have h: "connected ghost_state ''A''" "currentRoom_of ghost_state ''A'' \<noteq> Some (JStr ''arena'')"
    by code_simp+
  have e: "members (rooms ghost_state) ''arena'' = [''A'']"
    "sockets (fst (disconnect ''A'' ghost_state)) = []"
    "rooms (fst (disconnect ''A'' ghost_state)) = [(''arena'', [''A''])]"
    by code_simp+
  show ?thesis
    using h e disconnect_leaves_other_rooms [OF h]
    by (simp add: room_exists_def)
qed

section \<open>Chat messages\<close>

text \<open>
  Claim C7. The sender's current room is \<open>r\<close>, the sender is in the transport's room \<open>r\<close>
  (both hold once the sender has joined \<open>r\<close>), and the payload's message is a string that passes
  \<^verbatim>\<open>validateMessage\<close>. Then the handler emits exactly one \<^verbatim>\<open>messageReceived\<close> to each
  connection in room \<open>r\<close>, the sender among them, all carrying the same message: its body
  is the input trimmed and then stripped of every \<open><\<close> and \<open>>\<close>, its sender is the
  connection, and its type is the supplied type when that is \<^verbatim>\<open>'system'\<close> or \<^verbatim>\<open>'private'\<close>
  and \<^verbatim>\<open>'chat'\<close> otherwise.
\<close>

theorem sendMessage_reaches_whole_room:
  assumes room: "currentRoom_of st sid = Some (JStr r)" and nonempty: "r \<noteq> []"
    and member: "sid \<in> set (members (adapter st) r)"
    and body: "get_prop data ''message'' = JStr m"
    and valid: "validateMessage (JStr m)"
  shows "\<exists>msg. snd (sendMessage sid data now rnd st) =
                 broadcast (members (adapter st) r) (EvMessageReceived msg)
             \<and> (\<forall>x \<in> set (members (adapter st) r).
                   (x, EvMessageReceived msg) \<in> set (snd (sendMessage sid data now rnd st)))
             \<and> (sid, EvMessageReceived msg) \<in> set (snd (sendMessage sid data now rnd st))
             \<and> m_message msg = filter (\<lambda>c. c \<noteq> CHR ''<'' \<and> c \<noteq> CHR ''>'') (trim m)
             \<and> m_userId msg = sid
             \<and> m_type msg = (if get_prop data ''type'' = JStr ''system'' then ''system''
                              else if get_prop data ''type'' = JStr ''private'' then ''private''
                              else ''chat'')"
proof -
  obtain sk where sk: "map_of (sockets st) sid = Some sk" "data_currentRoom sk = JStr r"
    using room by (auto simp: currentRoom_of_def)
  have nn: "\<not> nullish data"
    using body by (cases data) simp_all
  let ?msg = "\<lparr>m_id = ''msg_'' @ show_int now @ ''_'' @ rnd, m_userId = sid,
               m_username = js_or (data_username sk) (JStr ''Anonymous''),
               m_message = sanitizeString m, m_timestamp = now,
               m_type = (if get_prop data ''type'' = JStr ''system'' then ''system''
                         else if get_prop data ''type'' = JStr ''private'' then ''private''
                         else ''chat'')\<rparr>"
  have out: "snd (sendMessage sid data now rnd st) = broadcast (members (adapter st) r) (EvMessageReceived ?msg)"
    using sk nn body valid nonempty
    by (simp add: sendMessage_def Let_def other_updateActivity)
  have "\<forall>x \<in> set (members (adapter st) r). (x, EvMessageReceived ?msg) \<in> set (snd (sendMessage sid data now rnd st))"
    by (simp add: out broadcast_def)
  then show ?thesis
    using out member by (intro exI[of _ ?msg]) (simp add: sanitizeString_def)
qed

text \<open>
  In the lobby scenario Alice sends \<^verbatim>\<open>" <hi> "\<close> with no type: Alice and Bob both receive
  the body \<^verbatim>\<open>hi\<close> with type \<^verbatim>\<open>chat\<close>.
\<close>

theorem sendMessage_reaches_whole_room_witness:
  "currentRoom_of lobby_state ''A'' = Some (JStr ''lobby'') \<and> ''lobby'' \<noteq> []
   \<and> ''A'' \<in> set (members (adapter lobby_state) ''lobby'')
   \<and> get_prop hi ''message'' = JStr '' <hi> '' \<and> validateMessage (JStr '' <hi> '')
   \<and> map (\<lambda>(x, e). (x, case e of EvMessageReceived msg \<Rightarrow> (m_message msg, m_type msg) | _ \<Rightarrow> ([], [])))
        (snd (sendMessage ''A'' hi 5000 ''k3j9x2q1z'' lobby_state))
      = [(''A'', ''hi'', ''chat''), (''B'', ''hi'', ''chat'')]"
proof -
  have h: "currentRoom_of lobby_state ''A'' = Some (JStr ''lobby'')" "''lobby'' \<noteq> []"
    "''A'' \<in> set (members (adapter lobby_state) ''lobby'')"
    "get_prop hi ''message'' = JStr '' <hi> ''" "validateMessage (JStr '' <hi> '')"
    by (simp_all add: lobby_sockets_eval lobby_message_eval hi_eval)
  show ?thesis
    using h lobby_message_eval(2)
      sendMessage_reaches_whole_room [OF h, of 5000 "''k3j9x2q1z''"]
    by blast
qed

section \<open>The client reconciler absorbs a repeated userLeft\<close>

text \<open>
  Claim C8. Applying the same \<^verbatim>\<open>userLeft\<close> event twice to any client store gives the store
  that applying it once gives, and the handler never sets the store's error: a repeated
  "peer left" for a peer that is already gone changes nothing.
\<close>

theorem userLeft_idempotent:
  "on_userLeft userId (on_userLeft userId st) = on_userLeft userId st
   \<and> error_text (on_userLeft userId st) = error_text st"
  by (cases userId) (simp_all add: on_userLeft_def Let_def)

section \<open>An invalid move uses up the rate-limit window\<close>

text \<open>
  Claim C9. A move that passes the rate check with an invalid position is answered with
  the error \<^verbatim>\<open>Invalid position data\<close> and changes no stored position, neither in the
  Registry nor in the connection's data, but it has set \<^verbatim>\<open>lastMoveTime\<close> to its own time;
  a valid move less than 100 ms after it is dropped: it emits nothing and stores nothing.
\<close>

theorem invalid_move_consumes_window:
  assumes sk: "lastMoveTime_of st sid = Some t0"
    and pass: "t1 - t0 \<ge> 100"
    and bad: "\<not> validatePosition p1"
    and good: "validatePosition p2"
    and soon: "t2 - t1 < 100"
  shows "snd (move sid p1 t1 st) = [(sid, EvError ''Invalid position data'')]
       \<and> (\<forall>k. position_of (fst (move sid p1 t1 st)) k = position_of st k)
       \<and> (\<forall>k. data_position_of (fst (move sid p1 t1 st)) k = data_position_of st k)
       \<and> lastMoveTime_of (fst (move sid p1 t1 st)) sid = Some t1
       \<and> snd (move sid p2 t2 (fst (move sid p1 t1 st))) = []
       \<and> (\<forall>k. position_of (fst (move sid p2 t2 (fst (move sid p1 t1 st)))) k = position_of st k)
       \<and> (\<forall>k. data_position_of (fst (move sid p2 t2 (fst (move sid p1 t1 st)))) k = data_position_of st k)"
proof -
  let ?s1 = "fst (move sid p1 t1 st)"
  obtain sk where sk': "map_of (sockets st) sid = Some sk" "lastMoveTime sk = t0"
    using sk by (auto simp: lastMoveTime_of_def)
  have m1: "move sid p1 t1 st =
      ((updateActivity sid t1 st)\<lparr>sockets := AList.update sid (sk\<lparr>lastMoveTime := t1\<rparr>) (sockets st)\<rparr>,
       [(sid, EvError ''Invalid position data'')])"
    using sk' pass bad
    by (simp add: move_def Let_def POSITION_UPDATE_INTERVAL_def other_updateActivity)
  have sk1: "map_of (sockets ?s1) sid = Some (sk\<lparr>lastMoveTime := t1\<rparr>)"
    by (simp add: m1 update_conv')
  have m2: "move sid p2 t2 ?s1 = (updateActivity sid t2 ?s1, [])"
    using sk1 soon by (simp add: move_def Let_def POSITION_UPDATE_INTERVAL_def)
  have p1: "position_of ?s1 k = position_of st k" for k
    using position_of_updateActivity[of sid t1 st k] by (simp add: m1 position_of_def)
  have d1: "data_position_of ?s1 k = data_position_of st k" for k
    using sk' by (simp add: m1 data_position_of_def update_conv')
  have d2: "data_position_of (updateActivity sid t2 ?s1) k = data_position_of ?s1 k" for k
    by (simp add: data_position_of_def other_updateActivity)
  show ?thesis
    using sk1 p1 d1 d2
    by (simp add: m2 position_of_updateActivity lastMoveTime_of_def) (simp add: m1)
qed

text \<open>
  In the lobby scenario Alice sends \<open>x = 5000\<close> at 5000 and the valid \<open>pos_a\<close> at 5050:
  the first is rejected, the second is dropped, and her position is still the default.
\<close>

theorem invalid_move_consumes_window_witness:
  "lastMoveTime_of lobby_state ''A'' = Some 0 \<and> (5000::int) - 0 \<ge> 100 \<and> \<not> validatePosition pos_far
   \<and> validatePosition pos_a \<and> (5050::int) - 5000 < 100
   \<and> snd (move ''A'' pos_far 5000 lobby_state) = [(''A'', EvError ''Invalid position data'')]
   \<and> snd (move ''A'' pos_a 5050 (fst (move ''A'' pos_far 5000 lobby_state))) = []
   \<and> position_of (fst (move ''A'' pos_a 5050 (fst (move ''A'' pos_far 5000 lobby_state)))) ''A'' = default_position"
proof -
  have h: "lastMoveTime_of lobby_state ''A'' = Some 0" by (rule lobby_sockets_eval)
  have t: "(5000::int) - 0 \<ge> 100" "(5050::int) - 5000 < 100" by simp_all
  have e: "position_of lobby_state ''A'' = default_position"
    by code_simp
  show ?thesis
    using h t e pos_a_valid pos_far_invalid
      invalid_move_consumes_window [OF h t(1) pos_far_invalid pos_a_valid t(2)]
    by simp
qed

section \<open>Initialization stores the avatar as sent\<close>

text \<open>
  Claim C10. For a live connection and valid user data, initializeUser stores the
  payload's \<^verbatim>\<open>avatar\<close> unchanged, in the Registry record and in the connection's data,
  whenever it is truthy, whatever it contains; the default avatar is stored only when the
  field is absent or falsy.
\<close>

theorem initializeUser_stores_avatar_verbatim:
  assumes "connected st sid" and "validateUserData userData"
  shows "avatar_of (fst (initializeUser sid userData now st)) sid =
           (if truthy (get_prop userData ''avatar'') then get_prop userData ''avatar'' else default_avatar)
       \<and> data_avatar_of (fst (initializeUser sid userData now st)) sid =
           Some (if truthy (get_prop userData ''avatar'') then get_prop userData ''avatar'' else default_avatar)"
proof -
  obtain sk where sk: "map_of (sockets st) sid = Some sk"
    using assms(1) by (auto simp: connected_def)
  obtain u where u: "get_prop userData ''username'' = JStr u"
    using validateUserData_username[OF assms(2)] by blast
  show ?thesis
    using sk u assms(2)
    by (simp add: initializeUser_def Let_def avatar_of_def data_avatar_of_def update_conv' js_or_def)
qed

text \<open>
  Alice initializes with an avatar whose color is \<^verbatim>\<open>red\<close>: it is stored as sent, where
  updateAvatar would have stored the default color.
\<close>

theorem initializeUser_stores_avatar_verbatim_witness:
  "connected fresh_state ''A'' \<and> validateUserData alice_red
   \<and> avatar_of (fst (initializeUser ''A'' alice_red 1000 fresh_state)) ''A'' = red_avatar
   \<and> get_prop red_avatar ''color'' = JStr ''red''
   \<and> get_prop (validAvatar_of red_avatar) ''color'' = JStr ''#3b82f6''"
proof -
  have h: "connected fresh_state ''A''" "validateUserData alice_red"
    by (rule fresh_state_eval)+
  have e: "get_prop alice_red ''avatar'' = red_avatar" "truthy red_avatar"
    "get_prop red_avatar ''color'' = JStr ''red''"
    "get_prop (validAvatar_of red_avatar) ''color'' = JStr ''#3b82f6''"
    by code_simp+
  show ?thesis
    using h e initializeUser_stores_avatar_verbatim [OF h, of 1000] by simp
qed

end
